theory Spec2Isabelle
  imports Main "HOL-Library.Sublist"
begin

section \<open>Metadata model (pkg/api/api.go)\<close>

text \<open>
  The structs of \<^verbatim>\<open>pkg/api/api.go\<close> that the fetcher reads. Every field is a Go
  string or a slice; nested anonymous structs are flattened, and each field carries the
  name of its struct as a prefix, because Isabelle record fields are global constants.
  \<^verbatim>\<open>XMLName\<close> (an \<^verbatim>\<open>xml.Name\<close>) is the pair of its space and local name.
\<close>

record URL =
  URL_Text :: string
  URL_Protocol :: string
  URL_Type :: string
  URL_Location :: string
  URL_Preference :: string

record File =
  File_Name :: string
  File_Resources_URLs :: "URL list"

record Metalink =
  Metalink_XMLName :: "string \<times> string"
  Metalink_Files_File :: "File list"

record Data =
  Data_Text :: string
  Data_Type :: string
  Data_Checksum_Text :: string
  Data_Checksum_Type :: string
  Data_OpenChecksum_Text :: string
  Data_OpenChecksum_Type :: string
  Data_Location_Text :: string
  Data_Location_Href :: string
  Data_Timestamp :: string
  Data_Size :: string
  Data_OpenSize :: string
  Data_DatabaseVersion :: string
  Data_HeaderChecksum_Text :: string
  Data_HeaderChecksum_Type :: string
  Data_HeaderSize :: string

record Repomd =
  Repomd_XMLName :: "string \<times> string"
  Repomd_Text :: string
  Repomd_Xmlns :: string
  Repomd_Rpm :: string
  Repomd_Revision :: string
  Repomd_Data :: "Data list"

text \<open>
  \<^verbatim>\<open>bazeldnf.Repository\<close> (package \<^verbatim>\<open>pkg/api/bazeldnf\<close>): the configured
  repository. \<^verbatim>\<open>fetch.go\<close> reads exactly these three fields of it.
\<close>

record Repository =
  Repository_Name :: string
  Repository_Metalink :: string
  Repository_Baseurl :: string

text \<open>
  \<^verbatim>\<open>net/url.URL\<close> as far as the fetcher touches it: \<^verbatim>\<open>Path\<close> is read and
  assigned, everything else is carried from \<^verbatim>\<open>url.Parse\<close> to \<^verbatim>\<open>String\<close>.
\<close>

record url =
  url_Scheme :: string
  url_Host :: string
  url_Path :: string
  url_RawQuery :: string
  url_Fragment :: string

subsection \<open>Accessors of the metadata model\<close>

text \<open>
  Modelled from the spec: the constants \<^verbatim>\<open>api.PrimaryFileType\<close> and
  \<^verbatim>\<open>api.FilelistsFileType\<close>, the two required metadata file types
  ("primary", "filelists").
\<close>

definition PrimaryFileType :: string where
  "PrimaryFileType = ''primary''"

definition FilelistsFileType :: string where
  "FilelistsFileType = ''filelists''"

text \<open>
  Modelled from the spec: \<^verbatim>\<open>(*Metalink).Repomod\<close>, the accessor for the file entry of
  the metalink that references the repository index file (repomd.xml); "only the entry
  referencing the repository index file is consulted". Go's nil is \<open>None\<close>.
\<close>

definition Repomod :: "Metalink \<Rightarrow> File option" where
  "Repomod m = find (\<lambda>f. File_Name f = ''repomd.xml'') (Metalink_Files_File m)"

text \<open>
  Modelled from the spec: \<^verbatim>\<open>(*Repomd).File\<close>, the lookup of the entry of a metadata
  file type in the index ("look up its entry in the verified index"; the index has
  "one entry per metadata file type"). Go's nil is \<open>None\<close>.
\<close>

definition Repomd_File :: "Repomd \<Rightarrow> string \<Rightarrow> Data option" where
  "Repomd_File r fileType = find (\<lambda>d. Data_Type d = fileType) (Repomd_Data r)"

text \<open>
  Modelled from the spec: \<^verbatim>\<open>(*Data).SHA256\<close>, the expected digest of an index entry.
  The verifier of \<^verbatim>\<open>fetch.go\<close> computes SHA-256 only (\<^verbatim>\<open>sha256.New()\<close>), so that
  is the one known algorithm; "unknown algorithms are a hard error, never silently
  skipped". The error is the text of the Go error value.
\<close>

definition Data_SHA256 :: "Data \<Rightarrow> string + string" where
  "Data_SHA256 d =
     (if Data_Checksum_Type d = ''sha256'' then Inr (Data_Checksum_Text d)
      else Inl ''no sha256 found'')"

section \<open>Go library functions on strings and paths\<close>

text \<open>\<^verbatim>\<open>strings.TrimSuffix\<close>.\<close>

definition TrimSuffix :: "string \<Rightarrow> string \<Rightarrow> string" where
  "TrimSuffix s suf =
     (if length suf \<le> length s \<and> drop (length s - length suf) s = suf
      then take (length s - length suf) s else s)"

text \<open>\<^verbatim>\<open>strings.Contains\<close>.\<close>

fun Contains :: "string \<Rightarrow> string \<Rightarrow> bool" where
  "Contains [] substr = (substr = [])"
| "Contains (c # s) substr = (prefix substr (c # s) \<or> Contains s substr)"

text \<open>\<^verbatim>\<open>strings.Split(s, "/")\<close> and \<^verbatim>\<open>strings.Join(elems, "/")\<close>.\<close>

fun split_slash :: "string \<Rightarrow> string list" where
  "split_slash [] = [[]]"
| "split_slash (c # s) =
     (if c = CHR ''/'' then [] # split_slash s
      else (case split_slash s of e # es \<Rightarrow> (c # e) # es | [] \<Rightarrow> [[c]]))"

fun join_slash :: "string list \<Rightarrow> string" where
  "join_slash [] = []"
| "join_slash [e] = e"
| "join_slash (e # es) = e @ ''/'' @ join_slash es"

text \<open>
  \<^verbatim>\<open>path.Clean\<close>, on the elements of the path. \<open>out\<close> is the output built so far,
  last element first. An empty element (a doubled slash) and \<^verbatim>\<open>.\<close> are dropped;
  \<^verbatim>\<open>..\<close> removes the element before it when there is one to remove, is kept when
  the path is not rooted, and is dropped at the root.
\<close>

fun clean_elems :: "bool \<Rightarrow> string list \<Rightarrow> string list \<Rightarrow> string list" where
  "clean_elems rooted out [] = rev out"
| "clean_elems rooted out (e # es) =
     (if e = [] \<or> e = ''.'' then clean_elems rooted out es
      else if e = ''..'' then
        (case out of
           t # ts \<Rightarrow>
             if t = ''..'' then clean_elems rooted (e # out) es
             else clean_elems rooted ts es
         | [] \<Rightarrow>
             if rooted then clean_elems rooted out es
             else clean_elems rooted [e] es)
      else clean_elems rooted (e # out) es)"

definition path_Clean :: "string \<Rightarrow> string" where
  "path_Clean p =
     (case p of
        [] \<Rightarrow> ''.''
      | c # _ \<Rightarrow>
          (let rooted = (c = CHR ''/'');
               out = (if rooted then ''/'' else []) @
                     join_slash (clean_elems rooted [] (split_slash p))
           in if out = [] then ''.'' else out))"

text \<open>\<^verbatim>\<open>path.Dir\<close>: everything up to the last slash, cleaned.\<close>

definition path_Dir :: "string \<Rightarrow> string" where
  "path_Dir p = path_Clean (rev (dropWhile (\<lambda>c. c \<noteq> CHR ''/'') (rev p)))"

text \<open>\<^verbatim>\<open>path.IsAbs\<close>.\<close>

definition path_IsAbs :: "string \<Rightarrow> bool" where
  "path_IsAbs p = (case p of [] \<Rightarrow> False | c # _ \<Rightarrow> c = CHR ''/'')"

text \<open>\<^verbatim>\<open>path.Join\<close> of two elements: empty elements are ignored.\<close>

definition path_Join :: "string \<Rightarrow> string \<Rightarrow> string" where
  "path_Join a b =
     (if a = [] \<and> b = [] then []
      else if a = [] then path_Clean b
      else path_Clean (a @ ''/'' @ b))"

text \<open>\<^verbatim>\<open>filepath.Base\<close> (with the separator \<^verbatim>\<open>/\<close>).\<close>

definition filepath_Base :: "string \<Rightarrow> string" where
  "filepath_Base p =
     (if p = [] then ''.''
      else (let stripped = rev (dropWhile (\<lambda>c. c = CHR ''/'') (rev p));
                base = rev (takeWhile (\<lambda>c. c \<noteq> CHR ''/'') (rev stripped))
            in if base = [] then ''/'' else base))"

section \<open>Errors, the log and the world\<close>

text \<open>
  Every error value of \<^verbatim>\<open>fetch.go\<close> is built by \<^verbatim>\<open>fmt.Errorf\<close>; there is one
  constructor for each call site, holding the arguments of the format. \<open>External\<close> is
  an error value made outside the package (by the Getter, the cache helper or an
  accessor of the metadata model), known by its text. \<open>NilDereference\<close> is the
  panic of a method call through a nil pointer, and \<open>FatalExit\<close> the end of the
  process in \<^verbatim>\<open>log.Fatalf\<close>.
\<close>

datatype error =
    External string
  | NoRepomdReference
  | NoHttpsUrl
  | ChecksumMismatch string string
  | AllMirrorsTried
  | NoFileReferenced
  | NoHref
  | LoadFailed string error
  | WriteFailed string error
  | Sha256sumOfFileFailed error
  | ResolveMetalinkFailed string error
  | Sha256sumOfRepomdFailed error
  | FetchRepomdFailed string error
  | FetchPrimaryFailed string error
  | FetchFilelistsFailed string error
  | NilDereference
  | FatalExit string

text \<open>
  The text of an error (\<^verbatim>\<open>err.Error()\<close>, which is what \<^verbatim>\<open>%v\<close> prints), with the
  format strings of \<^verbatim>\<open>fetch.go\<close> as they are written there.
\<close>

fun message :: "error \<Rightarrow> string" where
  "message (External s) = s"
| "message NoRepomdReference = ''Metalink file contains no reference to repod.xml''"
| "message NoHttpsUrl = ''Metalink contains no https url to a rpomd.xml file''"
| "message (ChecksumMismatch expected actual) =
     ''Expected sha256 sum '' @ expected @ '', but got '' @ actual"
| "message AllMirrorsTried = ''All mirrors tried, could not download repomd.xml''"
| "message NoFileReferenced = ''No 'file' file referenced in repomd''"
| "message NoHref = ''The 'file' file has no href associated''"
| "message (LoadFailed fileURL err) =
     ''Failed to load promary repository file from '' @ fileURL @ '': '' @ message err"
| "message (WriteFailed fileURL err) =
     ''Failed to write file.xml from '' @ fileURL @ '' to file: '' @ message err"
| "message (Sha256sumOfFileFailed err) = ''failed to get sha256sum of file: '' @ message err"
| "message (ResolveMetalinkFailed name err) =
     ''failed to resolve metalink for '' @ name @ '': '' @ message err"
| "message (Sha256sumOfRepomdFailed err) =
     ''failed to get sha256sum of repomd file: '' @ message err"
| "message (FetchRepomdFailed name err) =
     ''failed to fetch repomd.xml for '' @ name @ '': '' @ message err"
| "message (FetchPrimaryFailed name err) =
     ''failed to fetch primary.xml for '' @ name @ '': '' @ message err"
| "message (FetchFilelistsFailed name err) =
     ''failed to fetch filelists.xml for '' @ name @ '': '' @ message err"
| "message NilDereference = ''invalid memory address or nil pointer dereference''"
| "message (FatalExit s) = s"

datatype level = InfoLevel | ErrorLevel | FatalLevel

text \<open>
  The world the fetcher acts on: the URLs handed to \<^verbatim>\<open>Getter.Get\<close> so far (oldest
  first), the cache directory as a map from (repository name, file name) to the bytes
  stored there, and the lines written to the log.
\<close>

record world =
  requests :: "string list"
  cache :: "string \<times> string \<Rightarrow> string option"
  logs :: "(level \<times> string) list"

text \<open>
  What lies outside the package, as parameters: the Getter (its answer may depend on the
  requests made before; the answer is the text of an error, or the bytes of the response
  body), the faults of the storage (\<open>Some (text, n)\<close>: the write fails with that
  error after \<open>n\<close> bytes), the XML decoders of the cache helper (applied to what is
  stored under the file's key, \<open>None\<close> when nothing is), the accessor
  \<^verbatim>\<open>(*File).SHA256\<close> of a metalink file entry, \<^verbatim>\<open>crypto/sha256\<close> followed by
  \<^verbatim>\<open>hex.EncodeToString\<close>, and \<^verbatim>\<open>url.Parse\<close> and \<^verbatim>\<open>(*URL).String\<close>.
\<close>

record env =
  Getter_Get :: "string list \<Rightarrow> string \<Rightarrow> string + string"
  write_fault :: "string list \<Rightarrow> string \<Rightarrow> string \<Rightarrow> string \<Rightarrow> (string \<times> nat) option"
  decode_Metalink :: "string option \<Rightarrow> string + Metalink"
  decode_Repomd :: "string option \<Rightarrow> string + Repomd"
  File_SHA256 :: "File \<Rightarrow> string + string"
  sha256_hex :: "string \<Rightarrow> string"
  url_Parse :: "string \<Rightarrow> string + url"
  url_String :: "url \<Rightarrow> string"

definition log_line :: "level \<Rightarrow> string \<Rightarrow> world \<Rightarrow> world" where
  "log_line l s w = w\<lparr>logs := logs w @ [(l, s)]\<rparr>"

text \<open>\<^verbatim>\<open>r.Getter.Get(u)\<close>: the request is recorded, the Getter answers.\<close>

definition Get :: "env \<Rightarrow> string \<Rightarrow> world \<Rightarrow> (string + string) \<times> world" where
  "Get e u w = (Getter_Get e (requests w) u, w\<lparr>requests := requests w @ [u]\<rparr>)"

text \<open>
  Modelled from the spec: \<^verbatim>\<open>CacheHelper.WriteToRepoDir\<close>, which persists a byte
  stream "to stable storage keyed by repository identity and file name", overwriting
  prior contents; on a failure the partial write stays. The result is Go's error
  (\<open>None\<close> is nil).
\<close>

definition WriteToRepoDir ::
  "env \<Rightarrow> Repository \<Rightarrow> string \<Rightarrow> string \<Rightarrow> world \<Rightarrow> string option \<times> world" where
  "WriteToRepoDir e repo body name w =
     (case write_fault e (requests w) (Repository_Name repo) name body of
        None \<Rightarrow> (None, w\<lparr>cache := (cache w)((Repository_Name repo, name) \<mapsto> body)\<rparr>)
      | Some (err, n) \<Rightarrow>
          (Some err, w\<lparr>cache := (cache w)((Repository_Name repo, name) \<mapsto> take n body)\<rparr>))"

text \<open>
  Modelled from the spec: \<^verbatim>\<open>CacheHelper.LoadMetaLink\<close> and
  \<^verbatim>\<open>CacheHelper.UnmarshalFromRepoDir\<close>, which read a persisted file back and parse it.
\<close>

definition LoadMetaLink :: "env \<Rightarrow> Repository \<Rightarrow> world \<Rightarrow> string + Metalink" where
  "LoadMetaLink e repo w = decode_Metalink e (cache w (Repository_Name repo, ''metalink''))"

definition UnmarshalFromRepoDir :: "env \<Rightarrow> Repository \<Rightarrow> string \<Rightarrow> world \<Rightarrow> string + Repomd" where
  "UnmarshalFromRepoDir e repo name w = decode_Repomd e (cache w (Repository_Name repo, name))"

section \<open>The fetcher (pkg/repo/fetch.go)\<close>

subsection \<open>resolveMetaLink\<close>

text \<open>
  The loop of lines 92 to 98: the text of every URL whose protocol is https, in the
  order of the document.
\<close>

fun https_urls :: "URL list \<Rightarrow> string list" where
  "https_urls [] = []"
| "https_urls (u # us) =
     (if URL_Protocol u \<noteq> ''https'' then https_urls us
      else URL_Text u # https_urls us)"

definition resolveMetaLink ::
  "env \<Rightarrow> Repository \<Rightarrow> world \<Rightarrow> (error + Metalink \<times> string list) \<times> world" where
  "resolveMetaLink e repo w =
     (case Get e (Repository_Metalink repo) w of
        (Inl err, w1) \<Rightarrow> (Inl (External err), w1)
      | (Inr body, w1) \<Rightarrow>
          (case WriteToRepoDir e repo body ''metalink'' w1 of
             (Some err, w2) \<Rightarrow> (Inl (External err), w2)
           | (None, w2) \<Rightarrow>
               (case LoadMetaLink e repo w2 of
                  Inl err \<Rightarrow> (Inl (External err), w2)
                | Inr metalink \<Rightarrow>
                    (case Repomod metalink of
                       None \<Rightarrow> (Inl NoRepomdReference, w2)
                     | Some repomod \<Rightarrow>
                         (let urls = https_urls (File_Resources_URLs repomod)
                          in if length urls = 0 then (Inl NoHttpsUrl, w2)
                             else (Inr (metalink, urls), w2))))))"

subsection \<open>resolveRepomd\<close>

text \<open>
  One pass through the body of the loop over \<open>repomdURLs\<close> (lines 109 to 138), with
  the way it is left: \<open>Continue\<close> for \<^verbatim>\<open>continue\<close>, \<open>Return\<close> for the
  \<^verbatim>\<open>return\<close> of line 124 (and for the exit of \<^verbatim>\<open>log.Fatalf\<close>), \<open>Break\<close> for
  \<^verbatim>\<open>break\<close> with \<open>repomd\<close> and \<open>mirror\<close> assigned.
\<close>

datatype attempt = Continue | Return error | Break Repomd url

definition try_mirror ::
  "env \<Rightarrow> Repository \<Rightarrow> string \<Rightarrow> string \<Rightarrow> world \<Rightarrow> attempt \<times> world" where
  "try_mirror e repo sha256sum u w =
     (case Get e u (log_line InfoLevel (''Resolving repomd.xml from '' @ u) w) of
        (Inl err, w1) \<Rightarrow>
          (Continue,
           log_line ErrorLevel (''Failed to resolve repomd.xml from '' @ u @ '': '' @ err) w1)
      | (Inr body, w1) \<Rightarrow>
          (case WriteToRepoDir e repo body ''repomd.xml'' w1 of
             (Some err, w2) \<Rightarrow>
               (Continue,
                log_line ErrorLevel (''Failed to save repomd.xml from '' @ u @ '': '' @ err) w2)
           | (None, w2) \<Rightarrow>
               if sha256sum \<noteq> [] \<and> sha256_hex e body \<noteq> sha256sum
               then (Return (ChecksumMismatch sha256sum (sha256_hex e body)), w2)
               else
                 (case UnmarshalFromRepoDir e repo ''repomd.xml'' w2 of
                    Inl err \<Rightarrow>
                      (Continue,
                       log_line ErrorLevel
                         (''Failed to decode repomd.xml from '' @ u @ '': '' @ err) w2)
                  | Inr file \<Rightarrow>
                      (case url_Parse e u of
                         Inl err \<Rightarrow>
                           (Return (FatalExit
                              (''Invalid URL for repomd.xml from '' @ u @
                               '', this should be impossible: '' @ err)),
                            log_line FatalLevel
                              (''Invalid URL for repomd.xml from '' @ u @
                               '', this should be impossible: '' @ err) w2)
                       | Inr mirror \<Rightarrow> (Break file mirror, w2)))))"

fun resolveRepomd_loop ::
  "env \<Rightarrow> Repository \<Rightarrow> string \<Rightarrow> string list \<Rightarrow> world \<Rightarrow> (error + (Repomd \<times> url) option) \<times> world" where
  "resolveRepomd_loop e repo sha256sum [] w = (Inr None, w)"
| "resolveRepomd_loop e repo sha256sum (u # us) w =
     (case try_mirror e repo sha256sum u w of
        (Continue, w') \<Rightarrow> resolveRepomd_loop e repo sha256sum us w'
      | (Return err, w') \<Rightarrow> (Inl err, w')
      | (Break repomd mirror, w') \<Rightarrow> (Inr (Some (repomd, mirror)), w'))"

definition resolveRepomd ::
  "env \<Rightarrow> Repository \<Rightarrow> string list \<Rightarrow> string \<Rightarrow> world \<Rightarrow> (error + Repomd \<times> url) \<times> world" where
  "resolveRepomd e repo repomdURLs sha256sum w =
     (case resolveRepomd_loop e repo sha256sum repomdURLs w of
        (Inl err, w') \<Rightarrow> (Inl err, w')
      | (Inr None, w') \<Rightarrow> (Inl AllMirrorsTried, w')
      | (Inr (Some (repomd, mirror)), w') \<Rightarrow>
          (Inr (repomd,
                mirror\<lparr>url_Path := TrimSuffix (path_Dir (url_Path mirror)) ''repodata''\<rparr>),
           w'))"

subsection \<open>fetchFile\<close>

text \<open>Lines 157 to 163: the URL a typed file is loaded from.\<close>

definition fileURL :: "env \<Rightarrow> url \<Rightarrow> string \<Rightarrow> string" where
  "fileURL e mirror href =
     (if \<not> path_IsAbs href
      then url_String e (mirror\<lparr>url_Path := path_Join (url_Path mirror) href\<rparr>)
      else href)"

definition fetchFile ::
  "env \<Rightarrow> string \<Rightarrow> Repository \<Rightarrow> Repomd \<Rightarrow> url \<Rightarrow> world \<Rightarrow> error option \<times> world" where
  "fetchFile e fileType repo repomd mirror w =
     (case Repomd_File repomd fileType of
        None \<Rightarrow> (Some NoFileReferenced, w)
      | Some file \<Rightarrow>
          if Data_Location_Href file = [] then (Some NoHref, w)
          else
            (let fileName = filepath_Base (Data_Location_Href file);
                 fURL = fileURL e mirror (Data_Location_Href file)
             in case Get e fURL
                       (log_line InfoLevel (''Loading '' @ fileType @ '' file from '' @ fURL) w) of
                  (Inl err, w1) \<Rightarrow> (Some (LoadFailed fURL (External err)), w1)
                | (Inr body, w1) \<Rightarrow>
                    (case WriteToRepoDir e repo body fileName w1 of
                       (Some err, w2) \<Rightarrow> (Some (WriteFailed fURL (External err)), w2)
                     | (None, w2) \<Rightarrow>
                         (case Data_SHA256 file of
                            Inl err \<Rightarrow> (Some (Sha256sumOfFileFailed (External err)), w2)
                          | Inr sha256sum \<Rightarrow>
                              if sha256sum \<noteq> sha256_hex e body
                              then (Some (ChecksumMismatch sha256sum (sha256_hex e body)), w2)
                              else (None, w2)))))"

subsection \<open>Fetch\<close>

text \<open>
  Lines 32 to 46: the candidate URLs of the repository index and the expected checksum
  of the index (empty when none is known).
\<close>

definition repomd_candidates ::
  "env \<Rightarrow> Repository \<Rightarrow> world \<Rightarrow> (error + string list \<times> string) \<times> world" where
  "repomd_candidates e repo w =
     (if Repository_Metalink repo \<noteq> [] then
        (case resolveMetaLink e repo w of
           (Inl err, w1) \<Rightarrow> (Inl (ResolveMetalinkFailed (Repository_Name repo) err), w1)
         | (Inr (metalink, repomdURLs), w1) \<Rightarrow>
             (case Repomod metalink of
                None \<Rightarrow> (Inl NilDereference, w1)
              | Some repomod \<Rightarrow>
                  (case File_SHA256 e repomod of
                     Inl err \<Rightarrow> (Inl (Sha256sumOfRepomdFailed (External err)), w1)
                   | Inr sha256sum \<Rightarrow> (Inr (repomdURLs, sha256sum), w1))))
      else if Repository_Baseurl repo \<noteq> [] then
        (Inr ([TrimSuffix (Repository_Baseurl repo) ''/'' @ ''/repodata/repomd.xml''], []), w)
      else (Inr ([], []), w))"

text \<open>
  The body of the loop over \<open>r.Repos\<close> (lines 32 to 58); \<open>None\<close> is Go's nil. The
  exit of \<^verbatim>\<open>log.Fatalf\<close> is no error value and is not wrapped.
\<close>

definition fetch_repo :: "env \<Rightarrow> Repository \<Rightarrow> world \<Rightarrow> error option \<times> world" where
  "fetch_repo e repo w =
     (case repomd_candidates e repo w of
        (Inl err, w1) \<Rightarrow> (Some err, w1)
      | (Inr (repomdURLs, sha256sum), w1) \<Rightarrow>
          (case resolveRepomd e repo repomdURLs sha256sum w1 of
             (Inl (FatalExit s), w2) \<Rightarrow> (Some (FatalExit s), w2)
           | (Inl err, w2) \<Rightarrow> (Some (FetchRepomdFailed (Repository_Name repo) err), w2)
           | (Inr (repomd, mirror), w2) \<Rightarrow>
               (case fetchFile e PrimaryFileType repo repomd mirror w2 of
                  (Some err, w3) \<Rightarrow> (Some (FetchPrimaryFailed (Repository_Name repo) err), w3)
                | (None, w3) \<Rightarrow>
                    (case fetchFile e FilelistsFileType repo repomd mirror w3 of
                       (Some err, w4) \<Rightarrow>
                         (Some (FetchFilelistsFailed (Repository_Name repo) err), w4)
                     | (None, w4) \<Rightarrow> (None, w4)))))"

fun Fetch :: "env \<Rightarrow> Repository list \<Rightarrow> world \<Rightarrow> error option \<times> world" where
  "Fetch e [] w = (None, w)"
| "Fetch e (repo # repos) w =
     (case fetch_repo e repo w of
        (Some err, w') \<Rightarrow> (Some err, w')
      | (None, w') \<Rightarrow> Fetch e repos w')"

section \<open>Clean paths\<close>

text \<open>
  The paths the statements about the mirror speak of: a rooted directory path
  \<^verbatim>\<open>/d1/d2/.../\<close> whose elements are plain, that is, not empty, without a slash, and
  neither \<^verbatim>\<open>.\<close> nor \<^verbatim>\<open>..\<close>.
\<close>

definition plain_elem :: "string \<Rightarrow> bool" where
  "plain_elem c = (c \<noteq> [] \<and> c \<noteq> ''.'' \<and> c \<noteq> ''..'' \<and> CHR ''/'' \<notin> set c)"

definition rooted_dir :: "string list \<Rightarrow> string" where
  "rooted_dir dirs = ''/'' @ concat (map (\<lambda>d. d @ ''/'') dirs)"

section \<open>A small network for the examples\<close>

text \<open>
  The closed examples below run the fetcher against this network. Its digest is a toy
  (\<open>h(\<dots>)\<close> around the bytes), and its URLs have no query and no fragment.
\<close>

definition example_Parse :: "string \<Rightarrow> string + url" where
  "example_Parse u =
     (if prefix ''https://'' u
      then Inr \<lparr>url_Scheme = ''https'',
                url_Host = takeWhile (\<lambda>c. c \<noteq> CHR ''/'') (drop 8 u),
                url_Path = dropWhile (\<lambda>c. c \<noteq> CHR ''/'') (drop 8 u),
                url_RawQuery = [], url_Fragment = []\<rparr>
      else Inl ''unsupported protocol scheme'')"

definition example_String :: "url \<Rightarrow> string" where
  "example_String m = url_Scheme m @ ''://'' @ url_Host m @ url_Path m"

definition mk_URL :: "string \<Rightarrow> string \<Rightarrow> URL" where
  "mk_URL protocol text =
     \<lparr>URL_Text = text, URL_Protocol = protocol, URL_Type = protocol,
      URL_Location = ''US'', URL_Preference = ''100''\<rparr>"

definition mk_Data :: "string \<Rightarrow> string \<Rightarrow> string \<Rightarrow> string \<Rightarrow> Data" where
  "mk_Data type algorithm digest href =
     \<lparr>Data_Text = [], Data_Type = type, Data_Checksum_Text = digest,
      Data_Checksum_Type = algorithm, Data_OpenChecksum_Text = [],
      Data_OpenChecksum_Type = [], Data_Location_Text = [], Data_Location_Href = href,
      Data_Timestamp = [], Data_Size = [], Data_OpenSize = [], Data_DatabaseVersion = [],
      Data_HeaderChecksum_Text = [], Data_HeaderChecksum_Type = [], Data_HeaderSize = []\<rparr>"

definition mk_Repomd :: "Data list \<Rightarrow> Repomd" where
  "mk_Repomd ds =
     \<lparr>Repomd_XMLName = ([], ''repomd''), Repomd_Text = [], Repomd_Xmlns = [],
      Repomd_Rpm = [], Repomd_Revision = [], Repomd_Data = ds\<rparr>"

definition mk_Metalink :: "URL list \<Rightarrow> Metalink" where
  "mk_Metalink us =
     \<lparr>Metalink_XMLName = ([], ''metalink''),
      Metalink_Files_File = [\<lparr>File_Name = ''repomd.xml'', File_Resources_URLs = us\<rparr>]\<rparr>"

text \<open>Three metalink documents: two secure mirrors and an rsync one; one secure mirror
  (for this one the metalink states no SHA-256 digest); no secure mirror.\<close>

definition example_metalink :: Metalink where
  "example_metalink =
     mk_Metalink
       [mk_URL ''https'' ''https://m1.example/f/repodata/repomd.xml'',
        mk_URL ''rsync'' ''rsync://m0.example/f/repodata/repomd.xml'',
        mk_URL ''https'' ''https://m2.example/f/repodata/repomd.xml'']"

definition example_metalink_nohash :: Metalink where
  "example_metalink_nohash =
     mk_Metalink [mk_URL ''https'' ''https://m2.example/f/repodata/repomd.xml'']"

definition example_metalink_insecure :: Metalink where
  "example_metalink_insecure =
     mk_Metalink
       [mk_URL ''http'' ''http://m1.example/f/repodata/repomd.xml'',
        mk_URL ''rsync'' ''rsync://m0.example/f/repodata/repomd.xml'']"

text \<open>Two indexes: the one the mirrors \<open>m2\<close> and \<open>m4\<close> serve, and one whose
  entries do not fit the files served. The mirror \<open>m4\<close> serves no filelists file.\<close>

definition example_repomd :: Repomd where
  "example_repomd =
     mk_Repomd
       [mk_Data ''primary'' ''sha256'' ''h(PRIMARY)'' ''repodata/primary.xml.gz'',
        mk_Data ''filelists'' ''sha256'' ''h(FILELISTS)'' ''repodata/filelists.xml.gz'']"

definition example_tampered :: Repomd where
  "example_tampered =
     mk_Repomd
       [mk_Data ''primary'' ''sha256'' ''h(OTHER)'' ''repodata/primary.xml.gz'',
        mk_Data ''filelists'' ''md5'' ''h(FILELISTS)'' ''repodata/filelists.xml.gz'',
        mk_Data ''other'' ''sha256'' ''h(OTHER)'' []]"

definition example_env :: env where
  "example_env =
     \<lparr>Getter_Get = (\<lambda>earlier u.
        if u = ''https://mirrors.example/metalink'' then Inr ''METALINK''
        else if u = ''https://mirrors.example/nohash'' then Inr ''NOHASH''
        else if u = ''https://mirrors.example/insecure'' then Inr ''INSECURE''
        else if u = ''https://m1.example/f/repodata/repomd.xml'' then Inr ''STALE''
        else if u = ''https://m2.example/f/repodata/repomd.xml'' then Inr ''INDEX''
        else if u = ''https://m2.example/f/repodata/primary.xml.gz'' then Inr ''PRIMARY''
        else if u = ''https://m2.example/f/repodata/filelists.xml.gz'' then Inr ''FILELISTS''
        else if u = ''https://full.example/f/repodata/repomd.xml'' then Inr ''FULL''
        else if u = ''https://m3.example/f/repodata/repomd.xml'' then Inr ''TAMPERED''
        else if u = ''https://m3.example/f/repodata/primary.xml.gz'' then Inr ''PRIMARY''
        else if u = ''https://m4.example/f/repodata/repomd.xml'' then Inr ''INDEX''
        else if u = ''https://m4.example/f/repodata/primary.xml.gz'' then Inr ''PRIMARY''
        else Inl ''connection refused''),
      write_fault = (\<lambda>earlier name file body.
        if body = ''FULL'' then Some (''no space left on device'', 2) else None),
      decode_Metalink = (\<lambda>stored.
        if stored = Some ''METALINK'' then Inr example_metalink
        else if stored = Some ''NOHASH'' then Inr example_metalink_nohash
        else if stored = Some ''INSECURE'' then Inr example_metalink_insecure
        else Inl ''EOF''),
      decode_Repomd = (\<lambda>stored.
        if stored = Some ''INDEX'' then Inr example_repomd
        else if stored = Some ''TAMPERED'' then Inr example_tampered
        else Inl ''EOF''),
      File_SHA256 = (\<lambda>f.
        if length (File_Resources_URLs f) = 3 then Inr ''h(INDEX)''
        else Inl ''no sha256 found''),
      sha256_hex = (\<lambda>body. ''h('' @ body @ '')''),
      url_Parse = example_Parse,
      url_String = example_String\<rparr>"

definition example_world :: world where
  "example_world = \<lparr>requests = [], cache = Map.empty, logs = []\<rparr>"

text \<open>The world after the metalink of \<open>example_repo\<close> has been fetched and stored.\<close>

definition example_resolved :: world where
  "example_resolved =
     \<lparr>requests = [''https://mirrors.example/metalink''],
      cache = [(''fedora'', ''metalink'') \<mapsto> ''METALINK''],
      logs = []\<rparr>"

definition example_repo :: Repository where
  "example_repo =
     \<lparr>Repository_Name = ''fedora'',
      Repository_Metalink = ''https://mirrors.example/metalink'',
      Repository_Baseurl = ''https://m2.example/f/''\<rparr>"

definition example_direct :: Repository where
  "example_direct =
     \<lparr>Repository_Name = ''updates'', Repository_Metalink = [],
      Repository_Baseurl = ''https://m2.example/f/''\<rparr>"

definition example_nohash :: Repository where
  "example_nohash =
     \<lparr>Repository_Name = ''rawhide'',
      Repository_Metalink = ''https://mirrors.example/nohash'',
      Repository_Baseurl = []\<rparr>"

definition example_insecure :: Repository where
  "example_insecure =
     \<lparr>Repository_Name = ''legacy'',
      Repository_Metalink = ''https://mirrors.example/insecure'',
      Repository_Baseurl = []\<rparr>"

definition example_testing :: Repository where
  "example_testing =
     \<lparr>Repository_Name = ''testing'', Repository_Metalink = [],
      Repository_Baseurl = ''https://m3.example/f''\<rparr>"

definition example_partial :: Repository where
  "example_partial =
     \<lparr>Repository_Name = ''extras'', Repository_Metalink = [],
      Repository_Baseurl = ''https://m4.example/f''\<rparr>"

definition example_mirror :: url where
  "example_mirror =
     \<lparr>url_Scheme = ''https'', url_Host = ''m2.example'', url_Path = ''/f/'',
      url_RawQuery = [], url_Fragment = []\<rparr>"

lemmas fetch_defs = fetch_repo_def repomd_candidates_def resolveMetaLink_def resolveRepomd_def
  try_mirror_def fetchFile_def fileURL_def Get_def WriteToRepoDir_def LoadMetaLink_def
  UnmarshalFromRepoDir_def log_line_def Repomod_def Repomd_File_def Data_SHA256_def
  PrimaryFileType_def FilelistsFileType_def Let_def

lemmas path_defs = TrimSuffix_def path_Dir_def path_Clean_def path_Join_def path_IsAbs_def
  filepath_Base_def

lemmas example_defs = example_env_def example_world_def example_resolved_def example_repo_def
  example_direct_def example_testing_def example_partial_def example_nohash_def example_insecure_def example_mirror_def
  example_metalink_def example_metalink_nohash_def example_metalink_insecure_def
  example_repomd_def example_tampered_def mk_URL_def mk_Data_def mk_Repomd_def mk_Metalink_def
  example_Parse_def example_String_def

section \<open>Requests, results and errors of the fetcher\<close>

lemma WriteToRepoDir_keeps:
  "WriteToRepoDir e repo body name w = (r, w') \<Longrightarrow> requests w' = requests w \<and> logs w' = logs w"
  by (auto simp: WriteToRepoDir_def split: option.splits)

lemma try_mirror_requests:
  "try_mirror e repo s u w = (a, w') \<Longrightarrow> requests w' = requests w @ [u]"
  by (auto simp: try_mirror_def Get_def log_line_def WriteToRepoDir_def
      split: sum.splits option.splits if_splits)

lemma resolveRepomd_loop_append:
  "resolveRepomd_loop e repo s earlier w = (Inr None, w1) \<Longrightarrow>
   resolveRepomd_loop e repo s (earlier @ rest) w = resolveRepomd_loop e repo s rest w1"
proof (induction earlier arbitrary: w)
  case Nil
  then show ?case by simp
next
  case (Cons u us)
  then show ?case
    by (cases "try_mirror e repo s u w") (auto split: attempt.splits)
qed

lemma resolveRepomd_loop_exhausted_requests:
  "resolveRepomd_loop e repo s urls w = (Inr None, w') \<Longrightarrow> requests w' = requests w @ urls"
proof (induction urls arbitrary: w)
  case Nil
  then show ?case by simp
next
  case (Cons u us)
  obtain a w1 where t: "try_mirror e repo s u w = (a, w1)"
    by (cases "try_mirror e repo s u w")
  with Cons.prems have "a = Continue" and "resolveRepomd_loop e repo s us w1 = (Inr None, w')"
    by (auto split: attempt.splits)
  with Cons.IH try_mirror_requests [OF t] show ?case by simp
qed

lemma try_mirror_mismatch:
  assumes "sha256sum \<noteq> []"
    and "Getter_Get e (requests w) u = Inr body"
    and "write_fault e (requests w @ [u]) (Repository_Name repo) ''repomd.xml'' body = None"
    and "sha256_hex e body \<noteq> sha256sum"
  shows "try_mirror e repo sha256sum u w =
         (Return (ChecksumMismatch sha256sum (sha256_hex e body)),
          w\<lparr>requests := requests w @ [u],
            logs := logs w @ [(InfoLevel, ''Resolving repomd.xml from '' @ u)],
            cache := (cache w)((Repository_Name repo, ''repomd.xml'') \<mapsto> body)\<rparr>)"
  using assms by (simp add: try_mirror_def Get_def log_line_def WriteToRepoDir_def)


text \<open>The method call through a nil pointer in line 40 cannot happen.\<close>

lemma repomd_candidates_no_panic:
  "fst (repomd_candidates e repo w) \<noteq> Inl NilDereference"
  by (auto simp: repomd_candidates_def resolveMetaLink_def Let_def
      split: sum.splits option.splits prod.splits if_splits)

lemma try_mirror_Return:
  "try_mirror e repo s u w = (Return err, w') \<Longrightarrow>
   (\<exists>body. err = ChecksumMismatch s (sha256_hex e body) \<and> s \<noteq> [] \<and> sha256_hex e body \<noteq> s)
   \<or> (\<exists>t. err = FatalExit t \<and> \<not> prefix ''Expected sha256 sum '' t)"
  by (auto simp: try_mirror_def Get_def WriteToRepoDir_def
      split: sum.splits option.splits if_splits)

lemma resolveRepomd_loop_Inl:
  "resolveRepomd_loop e repo s urls w = (Inl err, w') \<Longrightarrow>
   (\<exists>body. err = ChecksumMismatch s (sha256_hex e body) \<and> s \<noteq> [] \<and> sha256_hex e body \<noteq> s)
   \<or> (\<exists>t. err = FatalExit t \<and> \<not> prefix ''Expected sha256 sum '' t)"
proof (induction urls arbitrary: w)
  case Nil
  then show ?case by simp
next
  case (Cons u us)
  obtain a w1 where t: "try_mirror e repo s u w = (a, w1)"
    by (cases "try_mirror e repo s u w")
  show ?case
  proof (cases a)
    case Continue
    with Cons.prems t have "resolveRepomd_loop e repo s us w1 = (Inl err, w')" by simp
    then show ?thesis by (rule Cons.IH)
  next
    case (Return x)
    with Cons.prems t have "x = err" by simp
    with Return t show ?thesis using try_mirror_Return by blast
  next
    case (Break r m)
    with Cons.prems t show ?thesis by simp
  qed
qed

lemma resolveRepomd_Inl:
  "resolveRepomd e repo urls s w = (Inl err, w') \<Longrightarrow>
   err = AllMirrorsTried
   \<or> (\<exists>body. err = ChecksumMismatch s (sha256_hex e body) \<and> s \<noteq> [] \<and> sha256_hex e body \<noteq> s)
   \<or> (\<exists>t. err = FatalExit t \<and> \<not> prefix ''Expected sha256 sum '' t)"
proof -
  assume r: "resolveRepomd e repo urls s w = (Inl err, w')"
  obtain x w1 where l: "resolveRepomd_loop e repo s urls w = (x, w1)"
    by (cases "resolveRepomd_loop e repo s urls w")
  show ?thesis
  proof (cases x)
    case (Inl a)
    with r l have "a = err" by (simp add: resolveRepomd_def)
    with Inl l show ?thesis using resolveRepomd_loop_Inl by blast
  next
    case (Inr b)
    with r l show ?thesis by (cases b) (auto simp: resolveRepomd_def)
  qed
qed

lemma fetchFile_Some:
  "fetchFile e fileType repo repomd mirror w = (Some err, w') \<Longrightarrow>
   err = NoFileReferenced \<or> err = NoHref
   \<or> (\<exists>u t. err = LoadFailed u (External t))
   \<or> (\<exists>u t. err = WriteFailed u (External t))
   \<or> (\<exists>t. err = Sha256sumOfFileFailed (External t))
   \<or> (\<exists>file expected body.
         Repomd_File repomd fileType = Some file
       \<and> Data_SHA256 file = Inr expected
       \<and> err = ChecksumMismatch expected (sha256_hex e body)
       \<and> expected \<noteq> sha256_hex e body)"
  by (auto simp: fetchFile_def Get_def WriteToRepoDir_def Let_def
      split: sum.splits option.splits if_splits)


section \<open>The claims\<close>

subsection \<open>C1: a checksum mismatch of the index aborts the repository\<close>

text \<open>
  Claim C1, as amended. If an expected checksum for the repository index was recorded
  (\<open>sha256sum\<close> is not empty) and the digest of a fetched and stored repomd.xml does
  not match it, then \<open>resolveRepomd\<close> returns at once the checksum-mismatch error
  with the expected and the actual digest, \<open>Fetch\<close> returns that error wrapped with the
  name of the repository and attempts no further repository, and no later mirror candidate
  is requested: the requests made are the earlier candidates and the mismatching one. The
  error does not name the mirror; its URL is in the last line of the log.
  The hypothesis \<open>reached\<close> says that the loop has given up every earlier candidate.
\<close>

theorem index_mismatch_aborts_repository:
  assumes candidates: "repomd_candidates e repo w0 = (Inr (earlier @ u # later, sha256sum), w)"
    and reached: "resolveRepomd_loop e repo sha256sum earlier w = (Inr None, w1)"
    and recorded: "sha256sum \<noteq> []"
    and fetched: "Getter_Get e (requests w1) u = Inr body"
    and written: "write_fault e (requests w1 @ [u]) (Repository_Name repo) ''repomd.xml'' body = None"
    and differs: "sha256_hex e body \<noteq> sha256sum"
  shows "\<exists>w'. resolveRepomd e repo (earlier @ u # later) sha256sum w =
               (Inl (ChecksumMismatch sha256sum (sha256_hex e body)), w')
            \<and> Fetch e (repo # repos) w0 =
               (Some (FetchRepomdFailed (Repository_Name repo)
                        (ChecksumMismatch sha256sum (sha256_hex e body))), w')
            \<and> requests w' = requests w @ earlier @ [u]
            \<and> last (logs w') = (InfoLevel, ''Resolving repomd.xml from '' @ u)"
proof -
  let ?w' = "w1\<lparr>requests := requests w1 @ [u],
            logs := logs w1 @ [(InfoLevel, ''Resolving repomd.xml from '' @ u)],
            cache := (cache w1)((Repository_Name repo, ''repomd.xml'') \<mapsto> body)\<rparr>"
  have step: "try_mirror e repo sha256sum u w1 =
      (Return (ChecksumMismatch sha256sum (sha256_hex e body)), ?w')"
    by (rule try_mirror_mismatch [OF recorded fetched written differs])
  have loop: "resolveRepomd_loop e repo sha256sum (earlier @ u # later) w =
      (Inl (ChecksumMismatch sha256sum (sha256_hex e body)), ?w')"
    by (simp add: resolveRepomd_loop_append [OF reached] step)
  have res: "resolveRepomd e repo (earlier @ u # later) sha256sum w =
      (Inl (ChecksumMismatch sha256sum (sha256_hex e body)), ?w')"
    by (simp add: resolveRepomd_def loop)
  have repo: "fetch_repo e repo w0 =
      (Some (FetchRepomdFailed (Repository_Name repo)
               (ChecksumMismatch sha256sum (sha256_hex e body))), ?w')"
    by (simp add: fetch_repo_def candidates res)
  have "requests ?w' = requests w @ earlier @ [u]"
    using resolveRepomd_loop_exhausted_requests [OF reached] by simp
  moreover have "last (logs ?w') = (InfoLevel, ''Resolving repomd.xml from '' @ u)"
    by simp
  ultimately show ?thesis using res repo by simp
qed

text \<open>
  The scenario of the spec: a metalink with two secure mirrors, the first of which serves
  an index that fails verification.
\<close>

theorem index_mismatch_aborts_repository_witness:
  "repomd_candidates example_env example_repo example_world =
     (Inr ([] @ ''https://m1.example/f/repodata/repomd.xml'' #
             [''https://m2.example/f/repodata/repomd.xml''], ''h(INDEX)''),
      example_resolved)
   \<and> Getter_Get example_env (requests example_resolved)
         ''https://m1.example/f/repodata/repomd.xml'' = Inr ''STALE''
   \<and> sha256_hex example_env ''STALE'' \<noteq> ''h(INDEX)''
   \<and> fst (Fetch example_env [example_repo, example_direct] example_world) =
       Some (FetchRepomdFailed ''fedora'' (ChecksumMismatch ''h(INDEX)'' ''h(STALE)''))
   \<and> requests (snd (Fetch example_env [example_repo, example_direct] example_world)) =
       [''https://mirrors.example/metalink'', ''https://m1.example/f/repodata/repomd.xml'']"
proof -
  have candidates: "repomd_candidates example_env example_repo example_world =
     (Inr ([] @ ''https://m1.example/f/repodata/repomd.xml'' #
             [''https://m2.example/f/repodata/repomd.xml''], ''h(INDEX)''),
      example_resolved)"
    by (simp add: fetch_defs example_defs Let_def)
  have reached: "resolveRepomd_loop example_env example_repo ''h(INDEX)'' [] example_resolved =
      (Inr None, example_resolved)"
    by simp
  have recorded: "''h(INDEX)'' \<noteq> []" by simp
  have fetched: "Getter_Get example_env (requests example_resolved)
         ''https://m1.example/f/repodata/repomd.xml'' = Inr ''STALE''"
    by (simp add: example_defs)
  have written: "write_fault example_env
     (requests example_resolved @ [''https://m1.example/f/repodata/repomd.xml''])
     (Repository_Name example_repo) ''repomd.xml'' ''STALE'' = None"
    by (simp add: example_defs)
  have differs: "sha256_hex example_env ''STALE'' \<noteq> ''h(INDEX)''"
    by (simp add: example_defs)
  from index_mismatch_aborts_repository
         [OF candidates reached recorded fetched written differs, of "[example_direct]"]
  obtain w' where
    "Fetch example_env [example_repo, example_direct] example_world =
       (Some (FetchRepomdFailed (Repository_Name example_repo)
                (ChecksumMismatch ''h(INDEX)'' (sha256_hex example_env ''STALE''))), w')"
    and "requests w' = requests example_resolved @ [] @
           [''https://m1.example/f/repodata/repomd.xml'']"
    by blast
  then have "fst (Fetch example_env [example_repo, example_direct] example_world) =
       Some (FetchRepomdFailed ''fedora'' (ChecksumMismatch ''h(INDEX)'' ''h(STALE)''))"
    and "requests (snd (Fetch example_env [example_repo, example_direct] example_world)) =
       [''https://mirrors.example/metalink'', ''https://m1.example/f/repodata/repomd.xml'']"
    by (simp_all add: example_defs)
  with candidates fetched differs show ?thesis by blast
qed

text \<open>
  Against C1 as it is stated ("a checksum-mismatch error naming that mirror"): in the same
  scenario the text of the error that \<open>Fetch\<close> returns contains neither the URL of the
  mirror nor its host.
\<close>

theorem index_mismatch_error_omits_mirror:
  "fst (Fetch example_env [example_repo] example_world) =
     Some (FetchRepomdFailed ''fedora'' (ChecksumMismatch ''h(INDEX)'' ''h(STALE)''))
   \<and> requests (snd (Fetch example_env [example_repo] example_world)) =
       [''https://mirrors.example/metalink'', ''https://m1.example/f/repodata/repomd.xml'']
   \<and> message (FetchRepomdFailed ''fedora'' (ChecksumMismatch ''h(INDEX)'' ''h(STALE)'')) =
       ''failed to fetch repomd.xml for fedora: Expected sha256 sum h(INDEX), but got h(STALE)''
   \<and> \<not> Contains
         (message (FetchRepomdFailed ''fedora'' (ChecksumMismatch ''h(INDEX)'' ''h(STALE)'')))
         ''https://m1.example/f/repodata/repomd.xml''
   \<and> \<not> Contains
         (message (FetchRepomdFailed ''fedora'' (ChecksumMismatch ''h(INDEX)'' ''h(STALE)'')))
         ''m1.example''"
  by (simp add: fetch_defs example_defs Let_def)


subsection \<open>C2: a checksum mismatch is an error of its own kind\<close>

text \<open>
  Claim C2. Among the errors that \<open>resolveRepomd\<close> and \<open>fetchFile\<close> return, the
  checksum mismatch is told apart by its text: the text begins with
  \<^verbatim>\<open>Expected sha256 sum\<close> exactly when the error is a checksum mismatch, never when
  it reports a failed download, a failed write or the exhaustion of the mirrors. The text
  of a mismatch holds both digests, the expected one (the recorded checksum of the index,
  or the checksum of the index entry) and the actual one, and the two differ.
\<close>

theorem checksum_mismatch_is_distinct:
  "(resolveRepomd e repo urls sha256sum w = (Inl err, w') \<longrightarrow>
      (if prefix ''Expected sha256 sum '' (message err)
       then \<exists>body. err = ChecksumMismatch sha256sum (sha256_hex e body)
              \<and> sha256_hex e body \<noteq> sha256sum
       else err = AllMirrorsTried \<or> (\<exists>t. err = FatalExit t)))
 \<and> (fetchFile e fileType repo repomd mirror w = (Some err, w') \<longrightarrow>
      (if prefix ''Expected sha256 sum '' (message err)
       then \<exists>file expected body. Repomd_File repomd fileType = Some file
              \<and> Data_SHA256 file = Inr expected
              \<and> err = ChecksumMismatch expected (sha256_hex e body)
              \<and> expected \<noteq> sha256_hex e body
       else err = NoFileReferenced \<or> err = NoHref
            \<or> (\<exists>u t. err = LoadFailed u (External t))
            \<or> (\<exists>u t. err = WriteFailed u (External t))
            \<or> (\<exists>t. err = Sha256sumOfFileFailed (External t))))
 \<and> message (ChecksumMismatch x y) = ''Expected sha256 sum '' @ x @ '', but got '' @ y"
proof (intro conjI impI)
  assume "resolveRepomd e repo urls sha256sum w = (Inl err, w')"
  from resolveRepomd_Inl [OF this]
  show "if prefix ''Expected sha256 sum '' (message err)
       then \<exists>body. err = ChecksumMismatch sha256sum (sha256_hex e body)
              \<and> sha256_hex e body \<noteq> sha256sum
       else err = AllMirrorsTried \<or> (\<exists>t. err = FatalExit t)"
    by (elim disjE exE conjE) auto
next
  assume "fetchFile e fileType repo repomd mirror w = (Some err, w')"
  from fetchFile_Some [OF this]
  show "if prefix ''Expected sha256 sum '' (message err)
       then \<exists>file expected body. Repomd_File repomd fileType = Some file
              \<and> Data_SHA256 file = Inr expected
              \<and> err = ChecksumMismatch expected (sha256_hex e body)
              \<and> expected \<noteq> sha256_hex e body
       else err = NoFileReferenced \<or> err = NoHref
            \<or> (\<exists>u t. err = LoadFailed u (External t))
            \<or> (\<exists>u t. err = WriteFailed u (External t))
            \<or> (\<exists>t. err = Sha256sumOfFileFailed (External t))"
    by (elim disjE exE conjE) auto
next
  show "message (ChecksumMismatch x y) = ''Expected sha256 sum '' @ x @ '', but got '' @ y"
    by simp
qed

theorem checksum_mismatch_is_distinct_witness:
  "resolveRepomd example_env example_repo
     [''https://m1.example/f/repodata/repomd.xml''] ''h(INDEX)'' example_resolved =
     (Inl (ChecksumMismatch ''h(INDEX)'' ''h(STALE)''),
      snd (resolveRepomd example_env example_repo
             [''https://m1.example/f/repodata/repomd.xml''] ''h(INDEX)'' example_resolved))
   \<and> fetchFile example_env ''primary'' example_direct example_tampered example_mirror
       example_world =
     (Some (ChecksumMismatch ''h(OTHER)'' ''h(PRIMARY)''),
      snd (fetchFile example_env ''primary'' example_direct example_tampered example_mirror
             example_world))
   \<and> prefix ''Expected sha256 sum '' (message (ChecksumMismatch ''h(OTHER)'' ''h(PRIMARY)''))
   \<and> (\<exists>file expected body. Repomd_File example_tampered ''primary'' = Some file
         \<and> Data_SHA256 file = Inr expected
         \<and> ChecksumMismatch ''h(OTHER)'' ''h(PRIMARY)'' =
             ChecksumMismatch expected (sha256_hex example_env body))
   \<and> (\<exists>body. ChecksumMismatch ''h(INDEX)'' ''h(STALE)'' =
         ChecksumMismatch ''h(INDEX)'' (sha256_hex example_env body))"
proof -
  have r: "resolveRepomd example_env example_repo
     [''https://m1.example/f/repodata/repomd.xml''] ''h(INDEX)'' example_resolved =
     (Inl (ChecksumMismatch ''h(INDEX)'' ''h(STALE)''),
      snd (resolveRepomd example_env example_repo
             [''https://m1.example/f/repodata/repomd.xml''] ''h(INDEX)'' example_resolved))"
    by (simp add: fetch_defs example_defs Let_def)
  have f: "fetchFile example_env ''primary'' example_direct example_tampered example_mirror
       example_world =
     (Some (ChecksumMismatch ''h(OTHER)'' ''h(PRIMARY)''),
      snd (fetchFile example_env ''primary'' example_direct example_tampered example_mirror
             example_world))"
    by (simp add: fetch_defs path_defs example_defs Let_def)
  have p1: "prefix ''Expected sha256 sum '' (message (ChecksumMismatch ''h(INDEX)'' ''h(STALE)''))"
    and p2: "prefix ''Expected sha256 sum '' (message (ChecksumMismatch ''h(OTHER)'' ''h(PRIMARY)''))"
    by simp_all
  note t = checksum_mismatch_is_distinct
  from t [THEN conjunct1, rule_format, OF r] p1
  have a: "\<exists>body. ChecksumMismatch ''h(INDEX)'' ''h(STALE)'' =
         ChecksumMismatch ''h(INDEX)'' (sha256_hex example_env body)"
    by (simp only: if_True) blast
  from t [THEN conjunct2, THEN conjunct1, rule_format, OF f] p2
  have b: "\<exists>file expected body. Repomd_File example_tampered ''primary'' = Some file
         \<and> Data_SHA256 file = Inr expected
         \<and> ChecksumMismatch ''h(OTHER)'' ''h(PRIMARY)'' =
             ChecksumMismatch expected (sha256_hex example_env body)"
    by (simp only: if_True) blast
  from r f p2 a b show ?thesis by blast
qed

subsection \<open>C3: a failing candidate is logged and the next one is tried\<close>

lemma try_mirror_Get_fails:
  assumes "Getter_Get e (requests w) u = Inl err"
  shows "try_mirror e repo s u w =
         (Continue,
          w\<lparr>requests := requests w @ [u],
            logs := logs w @
              [(InfoLevel, ''Resolving repomd.xml from '' @ u),
               (ErrorLevel, ''Failed to resolve repomd.xml from '' @ u @ '': '' @ err)]\<rparr>)"
  using assms by (simp add: try_mirror_def Get_def log_line_def)

lemma try_mirror_write_fails:
  assumes "Getter_Get e (requests w) u = Inr body"
    and "write_fault e (requests w @ [u]) (Repository_Name repo) ''repomd.xml'' body =
           Some (err, n)"
  shows "try_mirror e repo s u w =
         (Continue,
          w\<lparr>requests := requests w @ [u],
            cache := (cache w)((Repository_Name repo, ''repomd.xml'') \<mapsto> take n body),
            logs := logs w @
              [(InfoLevel, ''Resolving repomd.xml from '' @ u),
               (ErrorLevel, ''Failed to save repomd.xml from '' @ u @ '': '' @ err)]\<rparr>)"
  using assms by (simp add: try_mirror_def Get_def log_line_def WriteToRepoDir_def)

lemma try_mirror_decode_fails:
  assumes "Getter_Get e (requests w) u = Inr body"
    and "write_fault e (requests w @ [u]) (Repository_Name repo) ''repomd.xml'' body = None"
    and "s = [] \<or> sha256_hex e body = s"
    and "decode_Repomd e (Some body) = Inl err"
  shows "try_mirror e repo s u w =
         (Continue,
          w\<lparr>requests := requests w @ [u],
            cache := (cache w)((Repository_Name repo, ''repomd.xml'') \<mapsto> body),
            logs := logs w @
              [(InfoLevel, ''Resolving repomd.xml from '' @ u),
               (ErrorLevel, ''Failed to decode repomd.xml from '' @ u @ '': '' @ err)]\<rparr>)"
  using assms
  by (auto simp: try_mirror_def Get_def log_line_def WriteToRepoDir_def UnmarshalFromRepoDir_def)

lemma resolveRepomd_Continue:
  "try_mirror e repo s u w = (Continue, w1) \<Longrightarrow>
   resolveRepomd e repo (u # us) s w = resolveRepomd e repo us s w1"
  by (simp add: resolveRepomd_def)

lemma try_mirror_Continue:
  "try_mirror e repo s u w = (Continue, w') \<Longrightarrow>
   (case Getter_Get e (requests w) u of
      Inl err \<Rightarrow> True
    | Inr body \<Rightarrow>
        write_fault e (requests w @ [u]) (Repository_Name repo) ''repomd.xml'' body \<noteq> None
        \<or> isl (decode_Repomd e (Some body)))"
  by (auto simp: try_mirror_def Get_def log_line_def WriteToRepoDir_def UnmarshalFromRepoDir_def
      split: sum.splits option.splits if_splits)

lemma resolveRepomd_loop_exhausted_failures:
  "resolveRepomd_loop e repo s urls w = (Inr None, w') \<Longrightarrow> i < length urls \<Longrightarrow>
   (case Getter_Get e (requests w @ take i urls) (urls ! i) of
      Inl err \<Rightarrow> True
    | Inr body \<Rightarrow>
        write_fault e (requests w @ take i urls @ [urls ! i]) (Repository_Name repo)
          ''repomd.xml'' body \<noteq> None
        \<or> isl (decode_Repomd e (Some body)))"
proof (induction urls arbitrary: w i)
  case Nil
  then show ?case by simp
next
  case (Cons u us)
  obtain a w1 where t: "try_mirror e repo s u w = (a, w1)"
    by (cases "try_mirror e repo s u w")
  with Cons.prems have a: "a = Continue"
    and rest: "resolveRepomd_loop e repo s us w1 = (Inr None, w')"
    by (auto split: attempt.splits)
  show ?case
  proof (cases i)
    case 0
    with try_mirror_Continue [OF t [unfolded a]] show ?thesis
      by (auto split: sum.splits)
  next
    case (Suc j)
    with Cons.prems have "j < length us" by simp
    from Cons.IH [OF rest this] try_mirror_requests [OF t] Suc show ?thesis
      by (auto split: sum.splits)
  qed
qed

lemma resolveRepomd_AllMirrorsTried:
  "resolveRepomd e repo urls s w = (Inl AllMirrorsTried, w') \<Longrightarrow>
   resolveRepomd_loop e repo s urls w = (Inr None, w')"
proof -
  assume r: "resolveRepomd e repo urls s w = (Inl AllMirrorsTried, w')"
  obtain x w1 where l: "resolveRepomd_loop e repo s urls w = (x, w1)"
    by (cases "resolveRepomd_loop e repo s urls w")
  show ?thesis
  proof (cases x)
    case (Inl a)
    with r l have "a = AllMirrorsTried" by (simp add: resolveRepomd_def)
    with Inl l resolveRepomd_loop_Inl [of e repo s urls w AllMirrorsTried w1]
    show ?thesis by simp
  next
    case (Inr b)
    with r l show ?thesis by (cases b) (auto simp: resolveRepomd_def)
  qed
qed

text \<open>
  Claim C3. When the candidate \<open>u\<close> fails in the network (the Getter returns an error),
  in the write (the cache helper returns an error) or in the parse (the stored repomd.xml
  does not decode), \<open>resolveRepomd\<close> on \<open>u # us\<close> is \<open>resolveRepomd\<close> on the
  remaining candidates \<open>us\<close>, in the world where \<open>u\<close> has been requested and the
  failure has been logged at the error level: one failing mirror never ends the
  repository. The mirrors-exhausted error is returned only when every candidate of the list
  has been requested, in order, and each of them failed in one of these three ways.
\<close>

theorem mirror_failure_advances:
  "(Getter_Get e (requests w) u = Inl err \<longrightarrow>
      resolveRepomd e repo (u # us) s w =
      resolveRepomd e repo us s
        (w\<lparr>requests := requests w @ [u],
           logs := logs w @
             [(InfoLevel, ''Resolving repomd.xml from '' @ u),
              (ErrorLevel, ''Failed to resolve repomd.xml from '' @ u @ '': '' @ err)]\<rparr>))
 \<and> (Getter_Get e (requests w) u = Inr body
      \<and> write_fault e (requests w @ [u]) (Repository_Name repo) ''repomd.xml'' body =
           Some (err, n) \<longrightarrow>
      resolveRepomd e repo (u # us) s w =
      resolveRepomd e repo us s
        (w\<lparr>requests := requests w @ [u],
           cache := (cache w)((Repository_Name repo, ''repomd.xml'') \<mapsto> take n body),
           logs := logs w @
             [(InfoLevel, ''Resolving repomd.xml from '' @ u),
              (ErrorLevel, ''Failed to save repomd.xml from '' @ u @ '': '' @ err)]\<rparr>))
 \<and> (Getter_Get e (requests w) u = Inr body
      \<and> write_fault e (requests w @ [u]) (Repository_Name repo) ''repomd.xml'' body = None
      \<and> (s = [] \<or> sha256_hex e body = s)
      \<and> decode_Repomd e (Some body) = Inl err \<longrightarrow>
      resolveRepomd e repo (u # us) s w =
      resolveRepomd e repo us s
        (w\<lparr>requests := requests w @ [u],
           cache := (cache w)((Repository_Name repo, ''repomd.xml'') \<mapsto> body),
           logs := logs w @
             [(InfoLevel, ''Resolving repomd.xml from '' @ u),
              (ErrorLevel, ''Failed to decode repomd.xml from '' @ u @ '': '' @ err)]\<rparr>))
 \<and> (resolveRepomd e repo urls s w = (Inl AllMirrorsTried, w') \<longrightarrow>
      requests w' = requests w @ urls
      \<and> (\<forall>i<length urls.
            case Getter_Get e (requests w @ take i urls) (urls ! i) of
              Inl err \<Rightarrow> True
            | Inr body \<Rightarrow>
                write_fault e (requests w @ take i urls @ [urls ! i]) (Repository_Name repo)
                  ''repomd.xml'' body \<noteq> None
                \<or> isl (decode_Repomd e (Some body))))"
proof (intro conjI impI allI)
  assume "Getter_Get e (requests w) u = Inl err"
  from resolveRepomd_Continue [OF try_mirror_Get_fails [OF this]]
  show "resolveRepomd e repo (u # us) s w =
      resolveRepomd e repo us s
        (w\<lparr>requests := requests w @ [u],
           logs := logs w @
             [(InfoLevel, ''Resolving repomd.xml from '' @ u),
              (ErrorLevel, ''Failed to resolve repomd.xml from '' @ u @ '': '' @ err)]\<rparr>)" .
next
  assume "Getter_Get e (requests w) u = Inr body
      \<and> write_fault e (requests w @ [u]) (Repository_Name repo) ''repomd.xml'' body =
           Some (err, n)"
  then have g: "Getter_Get e (requests w) u = Inr body"
    and f: "write_fault e (requests w @ [u]) (Repository_Name repo) ''repomd.xml'' body =
           Some (err, n)"
    by simp_all
  from resolveRepomd_Continue [OF try_mirror_write_fails [OF g f]]
  show "resolveRepomd e repo (u # us) s w =
      resolveRepomd e repo us s
        (w\<lparr>requests := requests w @ [u],
           cache := (cache w)((Repository_Name repo, ''repomd.xml'') \<mapsto> take n body),
           logs := logs w @
             [(InfoLevel, ''Resolving repomd.xml from '' @ u),
              (ErrorLevel, ''Failed to save repomd.xml from '' @ u @ '': '' @ err)]\<rparr>)" .
next
  assume "Getter_Get e (requests w) u = Inr body
      \<and> write_fault e (requests w @ [u]) (Repository_Name repo) ''repomd.xml'' body = None
      \<and> (s = [] \<or> sha256_hex e body = s)
      \<and> decode_Repomd e (Some body) = Inl err"
  then have g: "Getter_Get e (requests w) u = Inr body"
    and f: "write_fault e (requests w @ [u]) (Repository_Name repo) ''repomd.xml'' body = None"
    and c: "s = [] \<or> sha256_hex e body = s"
    and d: "decode_Repomd e (Some body) = Inl err"
    by simp_all
  from resolveRepomd_Continue [OF try_mirror_decode_fails [OF g f c d]]
  show "resolveRepomd e repo (u # us) s w =
      resolveRepomd e repo us s
        (w\<lparr>requests := requests w @ [u],
           cache := (cache w)((Repository_Name repo, ''repomd.xml'') \<mapsto> body),
           logs := logs w @
             [(InfoLevel, ''Resolving repomd.xml from '' @ u),
              (ErrorLevel, ''Failed to decode repomd.xml from '' @ u @ '': '' @ err)]\<rparr>)" .
next
  assume "resolveRepomd e repo urls s w = (Inl AllMirrorsTried, w')"
  from resolveRepomd_loop_exhausted_requests [OF resolveRepomd_AllMirrorsTried [OF this]]
  show "requests w' = requests w @ urls" .
next
  fix i
  assume "resolveRepomd e repo urls s w = (Inl AllMirrorsTried, w')" and "i < length urls"
  from resolveRepomd_loop_exhausted_failures [OF resolveRepomd_AllMirrorsTried [OF this(1)] this(2)]
  show "case Getter_Get e (requests w @ take i urls) (urls ! i) of
              Inl err \<Rightarrow> True
            | Inr body \<Rightarrow>
                write_fault e (requests w @ take i urls @ [urls ! i]) (Repository_Name repo)
                  ''repomd.xml'' body \<noteq> None
                \<or> isl (decode_Repomd e (Some body))" .
qed

text \<open>
  A good mirror after a mirror that is down, after one whose index cannot be stored, and
  after one whose index does not parse; and the three failing mirrors alone.
\<close>

theorem mirror_failure_advances_witness:
  "Getter_Get example_env (requests example_world)
     ''https://down.example/f/repodata/repomd.xml'' = Inl ''connection refused''
   \<and> fst (resolveRepomd example_env example_direct
          [''https://down.example/f/repodata/repomd.xml'',
           ''https://m2.example/f/repodata/repomd.xml''] [] example_world) =
       Inr (example_repomd, example_mirror)
   \<and> write_fault example_env
         (requests example_world @ [''https://full.example/f/repodata/repomd.xml''])
         (Repository_Name example_direct) ''repomd.xml'' ''FULL'' =
       Some (''no space left on device'', 2)
   \<and> fst (resolveRepomd example_env example_direct
          [''https://full.example/f/repodata/repomd.xml'',
           ''https://m2.example/f/repodata/repomd.xml''] [] example_world) =
       Inr (example_repomd, example_mirror)
   \<and> decode_Repomd example_env (Some ''STALE'') = Inl ''EOF''
   \<and> fst (resolveRepomd example_env example_direct
          [''https://m1.example/f/repodata/repomd.xml'',
           ''https://m2.example/f/repodata/repomd.xml''] [] example_world) =
       Inr (example_repomd, example_mirror)
   \<and> fst (resolveRepomd example_env example_direct
          [''https://down.example/f/repodata/repomd.xml'',
           ''https://full.example/f/repodata/repomd.xml'',
           ''https://m1.example/f/repodata/repomd.xml''] [] example_world) =
       Inl AllMirrorsTried
   \<and> requests (snd (resolveRepomd example_env example_direct
          [''https://down.example/f/repodata/repomd.xml'',
           ''https://full.example/f/repodata/repomd.xml'',
           ''https://m1.example/f/repodata/repomd.xml''] [] example_world)) =
       [''https://down.example/f/repodata/repomd.xml'',
        ''https://full.example/f/repodata/repomd.xml'',
        ''https://m1.example/f/repodata/repomd.xml'']
   \<and> logs (snd (resolveRepomd example_env example_direct
          [''https://down.example/f/repodata/repomd.xml'',
           ''https://full.example/f/repodata/repomd.xml'',
           ''https://m1.example/f/repodata/repomd.xml''] [] example_world)) =
       [(InfoLevel, ''Resolving repomd.xml from https://down.example/f/repodata/repomd.xml''),
        (ErrorLevel, ''Failed to resolve repomd.xml from https://down.example/f/repodata/repomd.xml: connection refused''),
        (InfoLevel, ''Resolving repomd.xml from https://full.example/f/repodata/repomd.xml''),
        (ErrorLevel, ''Failed to save repomd.xml from https://full.example/f/repodata/repomd.xml: no space left on device''),
        (InfoLevel, ''Resolving repomd.xml from https://m1.example/f/repodata/repomd.xml''),
        (ErrorLevel, ''Failed to decode repomd.xml from https://m1.example/f/repodata/repomd.xml: EOF'')]"
proof -
  note t = mirror_failure_advances
    [where e = example_env and repo = example_direct and s = "[]" and w = example_world
       and us = "[''https://m2.example/f/repodata/repomd.xml'']"]
  have down: "Getter_Get example_env (requests example_world)
     ''https://down.example/f/repodata/repomd.xml'' = Inl ''connection refused''"
    by (simp add: example_defs)
  have full: "Getter_Get example_env (requests example_world)
       ''https://full.example/f/repodata/repomd.xml'' = Inr ''FULL''
     \<and> write_fault example_env
         (requests example_world @ [''https://full.example/f/repodata/repomd.xml''])
         (Repository_Name example_direct) ''repomd.xml'' ''FULL'' =
       Some (''no space left on device'', 2)"
    by (simp add: example_defs)
  have stale: "Getter_Get example_env (requests example_world)
       ''https://m1.example/f/repodata/repomd.xml'' = Inr ''STALE''
     \<and> write_fault example_env
         (requests example_world @ [''https://m1.example/f/repodata/repomd.xml''])
         (Repository_Name example_direct) ''repomd.xml'' ''STALE'' = None
     \<and> ([] = [] \<or> sha256_hex example_env ''STALE'' = [])
     \<and> decode_Repomd example_env (Some ''STALE'') = Inl ''EOF''"
    by (simp add: example_defs)
  let ?three = "[''https://down.example/f/repodata/repomd.xml'',
           ''https://full.example/f/repodata/repomd.xml'',
           ''https://m1.example/f/repodata/repomd.xml'']"
  have exhausted: "resolveRepomd example_env example_direct ?three [] example_world =
       (Inl AllMirrorsTried, snd (resolveRepomd example_env example_direct ?three [] example_world))"
    by (simp add: fetch_defs example_defs)
  from t [THEN conjunct1, rule_format, OF down]
  have a: "fst (resolveRepomd example_env example_direct
          [''https://down.example/f/repodata/repomd.xml'',
           ''https://m2.example/f/repodata/repomd.xml''] [] example_world) =
       Inr (example_repomd, example_mirror)"
    by (simp add: fetch_defs path_defs example_defs)
  from t [THEN conjunct2, THEN conjunct1, rule_format, OF full]
  have b: "fst (resolveRepomd example_env example_direct
          [''https://full.example/f/repodata/repomd.xml'',
           ''https://m2.example/f/repodata/repomd.xml''] [] example_world) =
       Inr (example_repomd, example_mirror)"
    by (simp add: fetch_defs path_defs example_defs)
  from t [THEN conjunct2, THEN conjunct2, THEN conjunct1, rule_format, OF stale]
  have c: "fst (resolveRepomd example_env example_direct
          [''https://m1.example/f/repodata/repomd.xml'',
           ''https://m2.example/f/repodata/repomd.xml''] [] example_world) =
       Inr (example_repomd, example_mirror)"
    by (simp add: fetch_defs path_defs example_defs)
  from t [THEN conjunct2, THEN conjunct2, THEN conjunct2, rule_format, OF exhausted]
  have d: "requests (snd (resolveRepomd example_env example_direct ?three [] example_world)) =
       ?three"
    by (simp add: example_defs)
  from exhausted
  have e: "fst (resolveRepomd example_env example_direct ?three [] example_world) =
       Inl AllMirrorsTried"
    by (metis fst_conv)
  have f: "logs (snd (resolveRepomd example_env example_direct ?three [] example_world)) =
       [(InfoLevel, ''Resolving repomd.xml from https://down.example/f/repodata/repomd.xml''),
        (ErrorLevel, ''Failed to resolve repomd.xml from https://down.example/f/repodata/repomd.xml: connection refused''),
        (InfoLevel, ''Resolving repomd.xml from https://full.example/f/repodata/repomd.xml''),
        (ErrorLevel, ''Failed to save repomd.xml from https://full.example/f/repodata/repomd.xml: no space left on device''),
        (InfoLevel, ''Resolving repomd.xml from https://m1.example/f/repodata/repomd.xml''),
        (ErrorLevel, ''Failed to decode repomd.xml from https://m1.example/f/repodata/repomd.xml: EOF'')]"
    by (simp add: fetch_defs example_defs)
  from down full stale a b c d e f show ?thesis by blast
qed


subsection \<open>C4: the mirrors of a metalink\<close>

lemma https_urls_filter:
  "https_urls us = map URL_Text (filter (\<lambda>u. URL_Protocol u = ''https'') us)"
  by (induction us) simp_all

lemma resolveMetaLink_requests:
  "requests (snd (resolveMetaLink e repo w)) = requests w @ [Repository_Metalink repo]"
  by (simp add: resolveMetaLink_def Get_def WriteToRepoDir_def Let_def
      split: sum.splits option.splits prod.splits)

lemma resolveMetaLink_loaded:
  assumes "Getter_Get e (requests w) (Repository_Metalink repo) = Inr body"
    and "write_fault e (requests w @ [Repository_Metalink repo]) (Repository_Name repo)
           ''metalink'' body = None"
    and "decode_Metalink e (Some body) = Inr metalink"
    and "Repomod metalink = Some repomod"
  shows "fst (resolveMetaLink e repo w) =
         (if filter (\<lambda>u. URL_Protocol u = ''https'') (File_Resources_URLs repomod) = []
          then Inl NoHttpsUrl
          else Inr (metalink,
                 map URL_Text
                   (filter (\<lambda>u. URL_Protocol u = ''https'') (File_Resources_URLs repomod))))"
  using assms
  by (simp add: resolveMetaLink_def Get_def WriteToRepoDir_def LoadMetaLink_def Let_def
      https_urls_filter)

lemma resolveMetaLink_NoHttpsUrl:
  assumes "fst (resolveMetaLink e repo w) = Inl NoHttpsUrl"
  shows "\<exists>body metalink repomod.
           Getter_Get e (requests w) (Repository_Metalink repo) = Inr body
         \<and> decode_Metalink e (Some body) = Inr metalink
         \<and> Repomod metalink = Some repomod
         \<and> filter (\<lambda>u. URL_Protocol u = ''https'') (File_Resources_URLs repomod) = []"
  using assms
  by (auto simp: resolveMetaLink_def Get_def WriteToRepoDir_def LoadMetaLink_def Let_def
      https_urls_filter split: sum.splits option.splits if_splits)

text \<open>
  Claim C4. When the metalink document has been fetched, stored and parsed and holds an
  entry for repomd.xml, \<open>resolveMetaLink\<close> returns the texts of exactly the URLs of that
  entry whose protocol is https, in the order of the document, or the error
  \<open>NoHttpsUrl\<close> when there is none. That error is returned in no other case. The one
  request \<open>resolveMetaLink\<close> makes is the request for the metalink document itself;
  no candidate is fetched.
\<close>

theorem metalink_keeps_https_in_order:
  "(Getter_Get e (requests w) (Repository_Metalink repo) = Inr body
    \<and> write_fault e (requests w @ [Repository_Metalink repo]) (Repository_Name repo)
        ''metalink'' body = None
    \<and> decode_Metalink e (Some body) = Inr metalink
    \<and> Repomod metalink = Some repomod \<longrightarrow>
    fst (resolveMetaLink e repo w) =
      (if filter (\<lambda>u. URL_Protocol u = ''https'') (File_Resources_URLs repomod) = []
       then Inl NoHttpsUrl
       else Inr (metalink,
              map URL_Text
                (filter (\<lambda>u. URL_Protocol u = ''https'') (File_Resources_URLs repomod)))))
 \<and> (fst (resolveMetaLink e repo w) = Inl NoHttpsUrl \<longrightarrow>
      (\<exists>body metalink repomod.
           Getter_Get e (requests w) (Repository_Metalink repo) = Inr body
         \<and> decode_Metalink e (Some body) = Inr metalink
         \<and> Repomod metalink = Some repomod
         \<and> filter (\<lambda>u. URL_Protocol u = ''https'') (File_Resources_URLs repomod) = []))
 \<and> requests (snd (resolveMetaLink e repo w)) = requests w @ [Repository_Metalink repo]"
  using resolveMetaLink_loaded [of e w repo body metalink repomod]
    resolveMetaLink_NoHttpsUrl [of e repo w] resolveMetaLink_requests [of e repo w]
  by blast

text \<open>
  A metalink with two secure mirrors around an rsync one, and a metalink with no secure
  mirror.
\<close>

theorem metalink_keeps_https_in_order_witness:
  "Getter_Get example_env (requests example_world) (Repository_Metalink example_repo) =
     Inr ''METALINK''
   \<and> decode_Metalink example_env (Some ''METALINK'') = Inr example_metalink
   \<and> fst (resolveMetaLink example_env example_repo example_world) =
       Inr (example_metalink,
            [''https://m1.example/f/repodata/repomd.xml'',
             ''https://m2.example/f/repodata/repomd.xml''])
   \<and> requests (snd (resolveMetaLink example_env example_repo example_world)) =
       [''https://mirrors.example/metalink'']
   \<and> fst (resolveMetaLink example_env example_insecure example_world) = Inl NoHttpsUrl
   \<and> requests (snd (resolveMetaLink example_env example_insecure example_world)) =
       [''https://mirrors.example/insecure'']
   \<and> (\<exists>body metalink repomod.
         Getter_Get example_env (requests example_world)
           (Repository_Metalink example_insecure) = Inr body
       \<and> decode_Metalink example_env (Some body) = Inr metalink
       \<and> Repomod metalink = Some repomod
       \<and> filter (\<lambda>u. URL_Protocol u = ''https'') (File_Resources_URLs repomod) = [])"
proof -
  have secure: "Getter_Get example_env (requests example_world)
       (Repository_Metalink example_repo) = Inr ''METALINK''
    \<and> write_fault example_env (requests example_world @ [Repository_Metalink example_repo])
        (Repository_Name example_repo) ''metalink'' ''METALINK'' = None
    \<and> decode_Metalink example_env (Some ''METALINK'') = Inr example_metalink
    \<and> Repomod example_metalink = Some (hd (Metalink_Files_File example_metalink))"
    by (simp add: example_defs Repomod_def)
  have insecure: "Getter_Get example_env (requests example_world)
       (Repository_Metalink example_insecure) = Inr ''INSECURE''
    \<and> write_fault example_env
        (requests example_world @ [Repository_Metalink example_insecure])
        (Repository_Name example_insecure) ''metalink'' ''INSECURE'' = None
    \<and> decode_Metalink example_env (Some ''INSECURE'') = Inr example_metalink_insecure
    \<and> Repomod example_metalink_insecure =
        Some (hd (Metalink_Files_File example_metalink_insecure))"
    by (simp add: example_defs Repomod_def)
  note t = metalink_keeps_https_in_order
  from t [THEN conjunct1, rule_format, OF secure]
  have a: "fst (resolveMetaLink example_env example_repo example_world) =
       Inr (example_metalink,
            [''https://m1.example/f/repodata/repomd.xml'',
             ''https://m2.example/f/repodata/repomd.xml''])"
    by (simp add: example_defs)
  from t [THEN conjunct1, rule_format, OF insecure]
  have b: "fst (resolveMetaLink example_env example_insecure example_world) = Inl NoHttpsUrl"
    by (simp add: example_defs)
  from t [THEN conjunct2, THEN conjunct2, of example_env example_repo example_world]
  have c: "requests (snd (resolveMetaLink example_env example_repo example_world)) =
       [''https://mirrors.example/metalink'']"
    by (simp add: example_defs)
  from t [THEN conjunct2, THEN conjunct2, of example_env example_insecure example_world]
  have d: "requests (snd (resolveMetaLink example_env example_insecure example_world)) =
       [''https://mirrors.example/insecure'']"
    by (simp add: example_defs)
  note f = t [THEN conjunct2, THEN conjunct1, rule_format, OF b]
  from secure a b c d f show ?thesis by blast
qed


subsection \<open>C5: a typed file that cannot be verified fails the repository\<close>

lemma fetchFile_no_entry:
  "Repomd_File repomd fileType = None \<Longrightarrow>
   fetchFile e fileType repo repomd mirror w = (Some NoFileReferenced, w)"
  by (simp add: fetchFile_def)

lemma fetchFile_no_href:
  "Repomd_File repomd fileType = Some file \<Longrightarrow> Data_Location_Href file = [] \<Longrightarrow>
   fetchFile e fileType repo repomd mirror w = (Some NoHref, w)"
  by (simp add: fetchFile_def)

lemma fetchFile_requests:
  "Repomd_File repomd fileType = Some file \<Longrightarrow> Data_Location_Href file \<noteq> [] \<Longrightarrow>
   requests (snd (fetchFile e fileType repo repomd mirror w)) =
   requests w @ [fileURL e mirror (Data_Location_Href file)]"
  by (simp add: fetchFile_def Get_def WriteToRepoDir_def log_line_def Let_def
      split: sum.splits option.splits prod.splits)

lemma fetchFile_mismatch:
  assumes "Repomd_File repomd fileType = Some file"
    and "Data_Location_Href file \<noteq> []"
    and "Getter_Get e (requests w) (fileURL e mirror (Data_Location_Href file)) = Inr body"
    and "write_fault e (requests w @ [fileURL e mirror (Data_Location_Href file)])
           (Repository_Name repo) (filepath_Base (Data_Location_Href file)) body = None"
    and "Data_SHA256 file = Inr expected"
    and "expected \<noteq> sha256_hex e body"
  shows "fetchFile e fileType repo repomd mirror w =
         (Some (ChecksumMismatch expected (sha256_hex e body)),
          w\<lparr>requests := requests w @ [fileURL e mirror (Data_Location_Href file)],
            logs := logs w @
              [(InfoLevel, ''Loading '' @ fileType @ '' file from '' @
                           fileURL e mirror (Data_Location_Href file))],
            cache := (cache w)
              ((Repository_Name repo, filepath_Base (Data_Location_Href file)) \<mapsto> body)\<rparr>)"
  using assms by (simp add: fetchFile_def Get_def WriteToRepoDir_def log_line_def Let_def)

lemma fetchFile_at_most_one_request:
  "requests (snd (fetchFile e fileType repo repomd mirror w)) = requests w
   \<or> (\<exists>u. requests (snd (fetchFile e fileType repo repomd mirror w)) = requests w @ [u])"
proof (cases "Repomd_File repomd fileType")
  case None
  then show ?thesis by (simp add: fetchFile_no_entry)
next
  case (Some d)
  then show ?thesis
    by (cases "Data_Location_Href d = []") (simp_all add: fetchFile_no_href fetchFile_requests)
qed

lemma Fetch_primary_fails:
  assumes "repomd_candidates e repo w0 = (Inr (urls, s), w1)"
    and "resolveRepomd e repo urls s w1 = (Inr (repomd, mirror), w2)"
    and "fetchFile e PrimaryFileType repo repomd mirror w2 = (Some err, w3)"
  shows "Fetch e (repo # repos) w0 = (Some (FetchPrimaryFailed (Repository_Name repo) err), w3)"
  using assms by (simp add: fetch_repo_def)

lemma Fetch_filelists_fails:
  assumes "repomd_candidates e repo w0 = (Inr (urls, s), w1)"
    and "resolveRepomd e repo urls s w1 = (Inr (repomd, mirror), w2)"
    and "fetchFile e PrimaryFileType repo repomd mirror w2 = (None, w3)"
    and "fetchFile e FilelistsFileType repo repomd mirror w3 = (Some err, w4)"
  shows "Fetch e (repo # repos) w0 = (Some (FetchFilelistsFailed (Repository_Name repo) err), w4)"
  using assms by (simp add: fetch_repo_def)

text \<open>
  Claim C5. For a typed metadata file, \<open>fetchFile\<close> returns an error when the index has
  no entry of the file type (nothing is requested), when the entry has no location href
  (nothing is requested), and when the digest of the fetched and stored file differs from
  the checksum of the entry. \<open>fetchFile\<close> makes at most one request, so the file is
  never tried again on another mirror. An error of \<open>fetchFile\<close> for the primary or for
  the filelists file makes \<open>Fetch\<close> return at once, with the error wrapped for that
  repository.
\<close>

theorem typed_file_failure_is_hard:
  "(Repomd_File repomd fileType = None \<longrightarrow>
      fetchFile e fileType repo repomd mirror w = (Some NoFileReferenced, w))
 \<and> (Repomd_File repomd fileType = Some file \<and> Data_Location_Href file = [] \<longrightarrow>
      fetchFile e fileType repo repomd mirror w = (Some NoHref, w))
 \<and> (Repomd_File repomd fileType = Some file \<and> Data_Location_Href file \<noteq> []
      \<and> Getter_Get e (requests w) (fileURL e mirror (Data_Location_Href file)) = Inr body
      \<and> write_fault e (requests w @ [fileURL e mirror (Data_Location_Href file)])
           (Repository_Name repo) (filepath_Base (Data_Location_Href file)) body = None
      \<and> Data_SHA256 file = Inr expected \<and> expected \<noteq> sha256_hex e body \<longrightarrow>
      fst (fetchFile e fileType repo repomd mirror w) =
        Some (ChecksumMismatch expected (sha256_hex e body))
      \<and> requests (snd (fetchFile e fileType repo repomd mirror w)) =
        requests w @ [fileURL e mirror (Data_Location_Href file)])
 \<and> (requests (snd (fetchFile e fileType repo repomd mirror w)) = requests w
      \<or> (\<exists>u. requests (snd (fetchFile e fileType repo repomd mirror w)) = requests w @ [u]))
 \<and> (repomd_candidates e repo w0 = (Inr (urls, s), w1)
      \<and> resolveRepomd e repo urls s w1 = (Inr (repomd, mirror), w2)
      \<and> fetchFile e PrimaryFileType repo repomd mirror w2 = (Some err, w3) \<longrightarrow>
      Fetch e (repo # repos) w0 = (Some (FetchPrimaryFailed (Repository_Name repo) err), w3))
 \<and> (repomd_candidates e repo w0 = (Inr (urls, s), w1)
      \<and> resolveRepomd e repo urls s w1 = (Inr (repomd, mirror), w2)
      \<and> fetchFile e PrimaryFileType repo repomd mirror w2 = (None, w3)
      \<and> fetchFile e FilelistsFileType repo repomd mirror w3 = (Some err, w4) \<longrightarrow>
      Fetch e (repo # repos) w0 =
        (Some (FetchFilelistsFailed (Repository_Name repo) err), w4))"
proof (intro conjI impI)
  assume "Repomd_File repomd fileType = None"
  then show "fetchFile e fileType repo repomd mirror w = (Some NoFileReferenced, w)"
    by (rule fetchFile_no_entry)
next
  assume "Repomd_File repomd fileType = Some file \<and> Data_Location_Href file = []"
  then show "fetchFile e fileType repo repomd mirror w = (Some NoHref, w)"
    by (simp add: fetchFile_no_href)
next
  assume a: "Repomd_File repomd fileType = Some file \<and> Data_Location_Href file \<noteq> []
      \<and> Getter_Get e (requests w) (fileURL e mirror (Data_Location_Href file)) = Inr body
      \<and> write_fault e (requests w @ [fileURL e mirror (Data_Location_Href file)])
           (Repository_Name repo) (filepath_Base (Data_Location_Href file)) body = None
      \<and> Data_SHA256 file = Inr expected \<and> expected \<noteq> sha256_hex e body"
  then show "fst (fetchFile e fileType repo repomd mirror w) =
        Some (ChecksumMismatch expected (sha256_hex e body))"
    by (simp add: fetchFile_mismatch)
  from a show "requests (snd (fetchFile e fileType repo repomd mirror w)) =
        requests w @ [fileURL e mirror (Data_Location_Href file)]"
    by (simp add: fetchFile_requests)
next
  show "requests (snd (fetchFile e fileType repo repomd mirror w)) = requests w
      \<or> (\<exists>u. requests (snd (fetchFile e fileType repo repomd mirror w)) = requests w @ [u])"
    by (rule fetchFile_at_most_one_request)
next
  assume "repomd_candidates e repo w0 = (Inr (urls, s), w1)
      \<and> resolveRepomd e repo urls s w1 = (Inr (repomd, mirror), w2)
      \<and> fetchFile e PrimaryFileType repo repomd mirror w2 = (Some err, w3)"
  then show "Fetch e (repo # repos) w0 =
      (Some (FetchPrimaryFailed (Repository_Name repo) err), w3)"
    by (elim conjE) (rule Fetch_primary_fails)
next
  assume "repomd_candidates e repo w0 = (Inr (urls, s), w1)
      \<and> resolveRepomd e repo urls s w1 = (Inr (repomd, mirror), w2)
      \<and> fetchFile e PrimaryFileType repo repomd mirror w2 = (None, w3)
      \<and> fetchFile e FilelistsFileType repo repomd mirror w3 = (Some err, w4)"
  then show "Fetch e (repo # repos) w0 =
      (Some (FetchFilelistsFailed (Repository_Name repo) err), w4)"
    by (elim conjE) (rule Fetch_filelists_fails)
qed

text \<open>
  An index without an entry for \<open>group\<close>, with an entry for \<open>other\<close> that has no
  href, and with a checksum for \<open>primary\<close> that the served file does not have; a
  repository whose mirror serves that index; and a repository whose mirror serves a good
  index and a good primary file, but no filelists file.
\<close>

theorem typed_file_failure_is_hard_witness:
  "Repomd_File example_tampered ''group'' = None
   \<and> fetchFile example_env ''group'' example_testing example_tampered example_mirror
       example_world = (Some NoFileReferenced, example_world)
   \<and> fetchFile example_env ''other'' example_testing example_tampered example_mirror
       example_world = (Some NoHref, example_world)
   \<and> fst (fetchFile example_env ''primary'' example_testing example_tampered example_mirror
        example_world) = Some (ChecksumMismatch ''h(OTHER)'' ''h(PRIMARY)'')
   \<and> requests (snd (fetchFile example_env ''primary'' example_testing example_tampered
        example_mirror example_world)) = [''https://m2.example/f/repodata/primary.xml.gz'']
   \<and> fst (Fetch example_env [example_testing, example_direct] example_world) =
       Some (FetchPrimaryFailed ''testing'' (ChecksumMismatch ''h(OTHER)'' ''h(PRIMARY)''))
   \<and> requests (snd (Fetch example_env [example_testing, example_direct] example_world)) =
       [''https://m3.example/f/repodata/repomd.xml'',
        ''https://m3.example/f/repodata/primary.xml.gz'']
   \<and> fst (Fetch example_env [example_partial, example_direct] example_world) =
       Some (FetchFilelistsFailed ''extras''
               (LoadFailed ''https://m4.example/f/repodata/filelists.xml.gz''
                  (External ''connection refused'')))
   \<and> requests (snd (Fetch example_env [example_partial, example_direct] example_world)) =
       [''https://m4.example/f/repodata/repomd.xml'',
        ''https://m4.example/f/repodata/primary.xml.gz'',
        ''https://m4.example/f/repodata/filelists.xml.gz'']"
proof -
  note t = typed_file_failure_is_hard
    [where e = example_env and repo = example_testing and repomd = example_tampered
       and w = example_world]
  have group: "Repomd_File example_tampered ''group'' = None"
    by (simp add: Repomd_File_def example_defs)
  have other: "Repomd_File example_tampered ''other'' =
       Some (mk_Data ''other'' ''sha256'' ''h(OTHER)'' [])
     \<and> Data_Location_Href (mk_Data ''other'' ''sha256'' ''h(OTHER)'' []) = []"
    by (simp add: Repomd_File_def example_defs)
  have primary: "Repomd_File example_tampered ''primary'' =
       Some (mk_Data ''primary'' ''sha256'' ''h(OTHER)'' ''repodata/primary.xml.gz'')
     \<and> Data_Location_Href
         (mk_Data ''primary'' ''sha256'' ''h(OTHER)'' ''repodata/primary.xml.gz'') \<noteq> []
     \<and> Getter_Get example_env (requests example_world)
         (fileURL example_env example_mirror
            (Data_Location_Href
               (mk_Data ''primary'' ''sha256'' ''h(OTHER)'' ''repodata/primary.xml.gz''))) =
       Inr ''PRIMARY''
     \<and> write_fault example_env
         (requests example_world @
          [fileURL example_env example_mirror
             (Data_Location_Href
                (mk_Data ''primary'' ''sha256'' ''h(OTHER)'' ''repodata/primary.xml.gz''))])
         (Repository_Name example_testing)
         (filepath_Base
            (Data_Location_Href
               (mk_Data ''primary'' ''sha256'' ''h(OTHER)'' ''repodata/primary.xml.gz'')))
         ''PRIMARY'' = None
     \<and> Data_SHA256 (mk_Data ''primary'' ''sha256'' ''h(OTHER)'' ''repodata/primary.xml.gz'') =
       Inr ''h(OTHER)''
     \<and> ''h(OTHER)'' \<noteq> sha256_hex example_env ''PRIMARY''"
    by (simp add: fetch_defs path_defs example_defs)
  have stages: "repomd_candidates example_env example_testing example_world =
       (Inr ([''https://m3.example/f/repodata/repomd.xml''], []), example_world)
     \<and> resolveRepomd example_env example_testing
         [''https://m3.example/f/repodata/repomd.xml''] [] example_world =
       (Inr (example_tampered, example_mirror\<lparr>url_Host := ''m3.example''\<rparr>),
        snd (resolveRepomd example_env example_testing
               [''https://m3.example/f/repodata/repomd.xml''] [] example_world))
     \<and> fetchFile example_env PrimaryFileType example_testing example_tampered
         (example_mirror\<lparr>url_Host := ''m3.example''\<rparr>)
         (snd (resolveRepomd example_env example_testing
                 [''https://m3.example/f/repodata/repomd.xml''] [] example_world)) =
       (Some (ChecksumMismatch ''h(OTHER)'' ''h(PRIMARY)''),
        snd (fetchFile example_env PrimaryFileType example_testing example_tampered
               (example_mirror\<lparr>url_Host := ''m3.example''\<rparr>)
               (snd (resolveRepomd example_env example_testing
                       [''https://m3.example/f/repodata/repomd.xml''] [] example_world))))"
    by (simp add: fetch_defs path_defs example_defs)
  from t [THEN conjunct1, rule_format, OF group, of example_mirror]
  have a: "fetchFile example_env ''group'' example_testing example_tampered example_mirror
       example_world = (Some NoFileReferenced, example_world)" .
  from t [THEN conjunct2, THEN conjunct1, rule_format, OF other, of example_mirror]
  have b: "fetchFile example_env ''other'' example_testing example_tampered example_mirror
       example_world = (Some NoHref, example_world)" .
  from t [THEN conjunct2, THEN conjunct2, THEN conjunct1, rule_format, OF primary]
  have c: "fst (fetchFile example_env ''primary'' example_testing example_tampered
        example_mirror example_world) = Some (ChecksumMismatch ''h(OTHER)'' ''h(PRIMARY)'')
     \<and> requests (snd (fetchFile example_env ''primary'' example_testing example_tampered
        example_mirror example_world)) = [''https://m2.example/f/repodata/primary.xml.gz'']"
    by (simp add: fetch_defs path_defs example_defs)
  from typed_file_failure_is_hard
    [THEN conjunct2, THEN conjunct2, THEN conjunct2, THEN conjunct2, THEN conjunct1,
     rule_format, OF stages, of "[example_direct]"]
  have d: "fst (Fetch example_env [example_testing, example_direct] example_world) =
       Some (FetchPrimaryFailed ''testing'' (ChecksumMismatch ''h(OTHER)'' ''h(PRIMARY)''))
     \<and> requests (snd (Fetch example_env [example_testing, example_direct] example_world)) =
       [''https://m3.example/f/repodata/repomd.xml'',
        ''https://m3.example/f/repodata/primary.xml.gz'']"
    by (simp add: fetch_defs path_defs example_defs)
  let ?m4 = "example_mirror\<lparr>url_Host := ''m4.example''\<rparr>"
  let ?w2 = "snd (resolveRepomd example_env example_partial
                    [''https://m4.example/f/repodata/repomd.xml''] [] example_world)"
  let ?w3 = "snd (fetchFile example_env PrimaryFileType example_partial example_repomd ?m4 ?w2)"
  have partial: "repomd_candidates example_env example_partial example_world =
       (Inr ([''https://m4.example/f/repodata/repomd.xml''], []), example_world)
     \<and> resolveRepomd example_env example_partial
         [''https://m4.example/f/repodata/repomd.xml''] [] example_world =
       (Inr (example_repomd, ?m4), ?w2)
     \<and> fetchFile example_env PrimaryFileType example_partial example_repomd ?m4 ?w2 =
       (None, ?w3)
     \<and> fetchFile example_env FilelistsFileType example_partial example_repomd ?m4 ?w3 =
       (Some (LoadFailed ''https://m4.example/f/repodata/filelists.xml.gz''
                (External ''connection refused'')),
        snd (fetchFile example_env FilelistsFileType example_partial example_repomd ?m4 ?w3))"
    by (simp add: fetch_defs path_defs example_defs)
  from typed_file_failure_is_hard
    [THEN conjunct2, THEN conjunct2, THEN conjunct2, THEN conjunct2, THEN conjunct2,
     rule_format, OF partial, of "[example_direct]"]
  have f: "fst (Fetch example_env [example_partial, example_direct] example_world) =
       Some (FetchFilelistsFailed ''extras''
               (LoadFailed ''https://m4.example/f/repodata/filelists.xml.gz''
                  (External ''connection refused'')))
     \<and> requests (snd (Fetch example_env [example_partial, example_direct] example_world)) =
       [''https://m4.example/f/repodata/repomd.xml'',
        ''https://m4.example/f/repodata/primary.xml.gz'',
        ''https://m4.example/f/repodata/filelists.xml.gz'']"
    by (simp add: fetch_defs path_defs example_defs)
  from group a b c d f show ?thesis by blast
qed


subsection \<open>C6: typed files come from the mirror of the index\<close>

lemma split_slash_elem:
  "CHR ''/'' \<notin> set c \<Longrightarrow> split_slash (c @ CHR ''/'' # rest) = c # split_slash rest"
  by (induction c) auto

lemma split_slash_last:
  "CHR ''/'' \<notin> set c \<Longrightarrow> split_slash c = [c]"
  by (induction c) auto

lemma split_slash_dirs:
  "list_all plain_elem dirs \<Longrightarrow>
   split_slash (concat (map (\<lambda>d. d @ ''/'') dirs) @ rest) = dirs @ split_slash rest"
  by (induction dirs) (auto simp: plain_elem_def split_slash_elem)

lemma split_slash_join:
  "list_all plain_elem hs \<Longrightarrow> hs \<noteq> [] \<Longrightarrow> split_slash (join_slash hs) = hs"
proof (induction hs rule: join_slash.induct)
  case 1
  then show ?case by simp
next
  case (2 e)
  then show ?case by (simp add: plain_elem_def split_slash_last)
next
  case (3 e v va)
  then show ?case by (simp add: plain_elem_def split_slash_elem)
qed

lemma clean_elems_plain:
  "list_all plain_elem cs \<Longrightarrow>
   clean_elems rooted out (cs @ rest) = clean_elems rooted (rev cs @ out) rest"
  by (induction cs arbitrary: out) (auto simp: plain_elem_def)

lemma join_slash_dirs:
  "hs \<noteq> [] \<Longrightarrow> join_slash (dirs @ hs) = concat (map (\<lambda>d. d @ ''/'') dirs) @ join_slash hs"
proof (induction dirs)
  case Nil
  then show ?case by simp
next
  case (Cons d ds)
  then obtain x xs where "ds @ hs = x # xs" by (cases "ds @ hs") auto
  with Cons show ?case by simp
qed

lemma TrimSuffix_append: "TrimSuffix (a @ suf) suf = a"
  by (simp add: TrimSuffix_def)

lemma mirror_base_path:
  assumes "list_all plain_elem dirs"
  shows "TrimSuffix (path_Dir (rooted_dir dirs @ ''repodata/repomd.xml'')) ''repodata'' =
         rooted_dir dirs"
proof -
  have dir: "rev (dropWhile (\<lambda>c. c \<noteq> CHR ''/'') (rev (rooted_dir dirs @ ''repodata/repomd.xml'')))
             = rooted_dir dirs @ ''repodata/''"
    by simp
  have split: "split_slash (rooted_dir dirs @ ''repodata/'') = [] # dirs @ [''repodata'', []]"
    using assms by (simp add: rooted_dir_def split_slash_dirs)
  have clean: "clean_elems True [] ([] # dirs @ [''repodata'', []]) = dirs @ [''repodata'']"
    using assms by (simp add: clean_elems_plain)
  have "path_Clean (rooted_dir dirs @ ''repodata/'') = rooted_dir dirs @ ''repodata''"
    using split clean
    by (simp add: path_Clean_def rooted_dir_def join_slash_dirs cong: list.case_cong)
  with dir show ?thesis
    by (simp add: path_Dir_def TrimSuffix_append)
qed

lemma join_relative_href:
  assumes "list_all plain_elem dirs" and "list_all plain_elem hs" and "hs \<noteq> []"
  shows "path_Join (rooted_dir dirs) (join_slash hs) = rooted_dir dirs @ join_slash hs"
proof -
  have split: "split_slash (rooted_dir dirs @ ''/'' @ join_slash hs) = [] # dirs @ [] # hs"
    using assms by (simp add: rooted_dir_def split_slash_dirs split_slash_join)
  have clean: "clean_elems True [] ([] # dirs @ [] # hs) = dirs @ hs"
    using assms by (simp add: clean_elems_plain clean_elems_plain [where rest = "[]", simplified])
  have "path_Clean (rooted_dir dirs @ ''/'' @ join_slash hs) = rooted_dir dirs @ join_slash hs"
    using split clean assms(3)
    by (simp add: path_Clean_def rooted_dir_def join_slash_dirs cong: list.case_cong)
  then show ?thesis
    by (simp add: path_Join_def rooted_dir_def)
qed

lemma relative_href:
  assumes "list_all plain_elem hs" and "hs \<noteq> []"
  shows "\<not> path_IsAbs (join_slash hs)"
proof -
  from assms obtain h hs' where hs: "hs = h # hs'" and h: "plain_elem h"
    by (cases hs) auto
  from h obtain c cs where c: "h = c # cs" and "c \<noteq> CHR ''/''"
    by (cases h) (auto simp: plain_elem_def)
  then show ?thesis unfolding hs
    by (cases hs') (simp_all add: path_IsAbs_def)
qed

lemma try_mirror_Break:
  "try_mirror e repo s u w = (Break r m, w') \<Longrightarrow> url_Parse e u = Inr m"
  by (auto simp: try_mirror_def Get_def WriteToRepoDir_def
      split: sum.splits option.splits if_splits)

lemma resolveRepomd_loop_found:
  "resolveRepomd_loop e repo s urls w = (Inr (Some (r, m)), w') \<Longrightarrow>
   \<exists>earlier u later. urls = earlier @ u # later
     \<and> requests w' = requests w @ earlier @ [u] \<and> url_Parse e u = Inr m"
proof (induction urls arbitrary: w)
  case Nil
  then show ?case by simp
next
  case (Cons v vs)
  obtain a w1 where t: "try_mirror e repo s v w = (a, w1)"
    by (cases "try_mirror e repo s v w")
  note reqs = try_mirror_requests [OF t]
  show ?case
  proof (cases a)
    case Continue
    with Cons.prems t have "resolveRepomd_loop e repo s vs w1 = (Inr (Some (r, m)), w')"
      by simp
    from Cons.IH [OF this] obtain earlier u later where
      "vs = earlier @ u # later" "requests w' = requests w1 @ earlier @ [u]"
      "url_Parse e u = Inr m"
      by blast
    with reqs have "v # vs = (v # earlier) @ u # later
      \<and> requests w' = requests w @ (v # earlier) @ [u] \<and> url_Parse e u = Inr m"
      by simp
    then show ?thesis by blast
  next
    case (Return x)
    with Cons.prems t show ?thesis by simp
  next
    case (Break r' m')
    with Cons.prems t have "r' = r" "m' = m" "w1 = w'" by simp_all
    with Break t reqs try_mirror_Break [of e repo s v w r m w']
    have "v # vs = [] @ v # vs \<and> requests w' = requests w @ [] @ [v] \<and> url_Parse e v = Inr m"
      by simp
    then show ?thesis by blast
  qed
qed

lemma resolveRepomd_found:
  assumes "resolveRepomd e repo urls s w = (Inr (repomd, mirror), w')"
  shows "\<exists>earlier u later m. urls = earlier @ u # later
     \<and> requests w' = requests w @ earlier @ [u] \<and> url_Parse e u = Inr m
     \<and> mirror = m\<lparr>url_Path := TrimSuffix (path_Dir (url_Path m)) ''repodata''\<rparr>"
proof -
  obtain x w1 where l: "resolveRepomd_loop e repo s urls w = (x, w1)"
    by (cases "resolveRepomd_loop e repo s urls w")
  with assms obtain m where "x = Inr (Some (repomd, m))" "w1 = w'"
    "mirror = m\<lparr>url_Path := TrimSuffix (path_Dir (url_Path m)) ''repodata''\<rparr>"
    by (auto simp: resolveRepomd_def split: sum.splits option.splits)
  with l resolveRepomd_loop_found [of e repo s urls w repomd m w'] show ?thesis by blast
qed

lemma fetch_repo_typed_requests:
  assumes "repomd_candidates e repo w0 = (Inr (urls, s), w1)"
    and "resolveRepomd e repo urls s w1 = (Inr (repomd, mirror), w2)"
    and "Repomd_File repomd PrimaryFileType = Some p" and "Data_Location_Href p \<noteq> []"
    and "Repomd_File repomd FilelistsFileType = Some f" and "Data_Location_Href f \<noteq> []"
  shows "requests (snd (fetch_repo e repo w0)) =
           requests w2 @ [fileURL e mirror (Data_Location_Href p)]
       \<or> requests (snd (fetch_repo e repo w0)) =
           requests w2 @ [fileURL e mirror (Data_Location_Href p),
                          fileURL e mirror (Data_Location_Href f)]"
proof -
  obtain r3 w3 where one: "fetchFile e PrimaryFileType repo repomd mirror w2 = (r3, w3)"
    by (cases "fetchFile e PrimaryFileType repo repomd mirror w2")
  obtain r4 w4 where two: "fetchFile e FilelistsFileType repo repomd mirror w3 = (r4, w4)"
    by (cases "fetchFile e FilelistsFileType repo repomd mirror w3")
  from fetchFile_requests [OF assms(3,4), of e repo mirror w2] one
  have 3: "requests w3 = requests w2 @ [fileURL e mirror (Data_Location_Href p)]" by simp
  from fetchFile_requests [OF assms(5,6), of e repo mirror w3] two
  have 4: "requests w4 = requests w3 @ [fileURL e mirror (Data_Location_Href f)]" by simp
  show ?thesis
  proof (cases r3)
    case None
    with assms(1,2) one two have "snd (fetch_repo e repo w0) = w4"
      by (simp add: fetch_repo_def split: option.splits)
    with 3 4 show ?thesis by simp
  next
    case (Some err)
    with assms(1,2) one have "snd (fetch_repo e repo w0) = w3"
      by (simp add: fetch_repo_def)
    with 3 show ?thesis by simp
  qed
qed

text \<open>
  Claim C6. The mirror that a successful \<open>resolveRepomd\<close> returns is the parsed URL of
  the last index URL requested, with its path replaced by the directory of the path
  without a trailing \<^verbatim>\<open>repodata\<close>. \<open>fetchFile\<close> requests one URL: the href itself
  when it is absolute (\<^verbatim>\<open>path.IsAbs\<close>: it begins with a slash), otherwise that mirror
  with the href joined to its path. After the
  index has been resolved, the requests of \<open>Fetch\<close> for the repository are these URLs
  for the primary and the filelists entry, and no others. For an index path
  \<^verbatim>\<open>/d1/.../dn/repodata/repomd.xml\<close> of plain elements the path of the mirror is
  \<^verbatim>\<open>/d1/.../dn/\<close>, and joining a relative href of plain elements to it appends the href.
\<close>

theorem typed_files_come_from_pinned_mirror:
  "(resolveRepomd e repo urls s w = (Inr (repomd, mirror), w1) \<longrightarrow>
      (\<exists>earlier u later m. urls = earlier @ u # later
         \<and> requests w1 = requests w @ earlier @ [u] \<and> url_Parse e u = Inr m
         \<and> mirror = m\<lparr>url_Path := TrimSuffix (path_Dir (url_Path m)) ''repodata''\<rparr>))
 \<and> (Repomd_File repomd fileType = Some file \<and> Data_Location_Href file \<noteq> [] \<longrightarrow>
      requests (snd (fetchFile e fileType repo repomd mirror w1)) =
        requests w1 @
          [if path_IsAbs (Data_Location_Href file) then Data_Location_Href file
           else url_String e
                  (mirror\<lparr>url_Path := path_Join (url_Path mirror) (Data_Location_Href file)\<rparr>)])
 \<and> (repomd_candidates e repo w0 = (Inr (urls, s), w)
      \<and> resolveRepomd e repo urls s w = (Inr (repomd, mirror), w1)
      \<and> Repomd_File repomd PrimaryFileType = Some p \<and> Data_Location_Href p \<noteq> []
      \<and> Repomd_File repomd FilelistsFileType = Some f \<and> Data_Location_Href f \<noteq> [] \<longrightarrow>
      requests (snd (fetch_repo e repo w0)) =
        requests w1 @ [fileURL e mirror (Data_Location_Href p)]
      \<or> requests (snd (fetch_repo e repo w0)) =
        requests w1 @ [fileURL e mirror (Data_Location_Href p),
                       fileURL e mirror (Data_Location_Href f)])
 \<and> (list_all plain_elem dirs \<longrightarrow>
      TrimSuffix (path_Dir (rooted_dir dirs @ ''repodata/repomd.xml'')) ''repodata'' =
        rooted_dir dirs)
 \<and> (list_all plain_elem dirs \<and> list_all plain_elem hs \<and> hs \<noteq> [] \<longrightarrow>
      \<not> path_IsAbs (join_slash hs)
      \<and> path_Join (rooted_dir dirs) (join_slash hs) = rooted_dir dirs @ join_slash hs)"
proof (intro conjI impI)
  assume "resolveRepomd e repo urls s w = (Inr (repomd, mirror), w1)"
  then show "\<exists>earlier u later m. urls = earlier @ u # later
         \<and> requests w1 = requests w @ earlier @ [u] \<and> url_Parse e u = Inr m
         \<and> mirror = m\<lparr>url_Path := TrimSuffix (path_Dir (url_Path m)) ''repodata''\<rparr>"
    by (rule resolveRepomd_found)
next
  assume "Repomd_File repomd fileType = Some file \<and> Data_Location_Href file \<noteq> []"
  then show "requests (snd (fetchFile e fileType repo repomd mirror w1)) =
        requests w1 @
          [if path_IsAbs (Data_Location_Href file) then Data_Location_Href file
           else url_String e
                  (mirror\<lparr>url_Path := path_Join (url_Path mirror) (Data_Location_Href file)\<rparr>)]"
    by (simp add: fetchFile_requests fileURL_def)
next
  assume "repomd_candidates e repo w0 = (Inr (urls, s), w)
      \<and> resolveRepomd e repo urls s w = (Inr (repomd, mirror), w1)
      \<and> Repomd_File repomd PrimaryFileType = Some p \<and> Data_Location_Href p \<noteq> []
      \<and> Repomd_File repomd FilelistsFileType = Some f \<and> Data_Location_Href f \<noteq> []"
  then show "requests (snd (fetch_repo e repo w0)) =
        requests w1 @ [fileURL e mirror (Data_Location_Href p)]
      \<or> requests (snd (fetch_repo e repo w0)) =
        requests w1 @ [fileURL e mirror (Data_Location_Href p),
                       fileURL e mirror (Data_Location_Href f)]"
    by (elim conjE) (rule fetch_repo_typed_requests)
next
  assume "list_all plain_elem dirs"
  then show "TrimSuffix (path_Dir (rooted_dir dirs @ ''repodata/repomd.xml'')) ''repodata'' =
        rooted_dir dirs"
    by (rule mirror_base_path)
next
  assume a: "list_all plain_elem dirs \<and> list_all plain_elem hs \<and> hs \<noteq> []"
  then show "\<not> path_IsAbs (join_slash hs)"
    by (simp add: relative_href)
  from a show "path_Join (rooted_dir dirs) (join_slash hs) = rooted_dir dirs @ join_slash hs"
    by (simp add: join_relative_href)
qed

text \<open>
  A repository with a base URL: the index comes from \<open>m2\<close>, and so do both typed
  files.
\<close>

theorem typed_files_come_from_pinned_mirror_witness:
  "fst (resolveRepomd example_env example_direct
          [''https://m2.example/f/repodata/repomd.xml''] [] example_world) =
     Inr (example_repomd, example_mirror)
   \<and> url_Parse example_env ''https://m2.example/f/repodata/repomd.xml'' =
       Inr (example_mirror\<lparr>url_Path := ''/f/repodata/repomd.xml''\<rparr>)
   \<and> TrimSuffix (path_Dir ''/f/repodata/repomd.xml'') ''repodata'' = ''/f/''
   \<and> \<not> path_IsAbs ''repodata/primary.xml.gz''
   \<and> path_Join ''/f/'' ''repodata/primary.xml.gz'' = ''/f/repodata/primary.xml.gz''
   \<and> requests (snd (fetchFile example_env ''primary'' example_direct example_repomd
        example_mirror
        (snd (resolveRepomd example_env example_direct
                [''https://m2.example/f/repodata/repomd.xml''] [] example_world)))) =
       [''https://m2.example/f/repodata/repomd.xml'',
        ''https://m2.example/f/repodata/primary.xml.gz'']
   \<and> requests (snd (fetch_repo example_env example_direct example_world)) =
       [''https://m2.example/f/repodata/repomd.xml'',
        ''https://m2.example/f/repodata/primary.xml.gz'',
        ''https://m2.example/f/repodata/filelists.xml.gz'']
   \<and> fileURL example_env example_mirror ''repodata/primary.xml.gz'' =
       ''https://m2.example/f/repodata/primary.xml.gz''
   \<and> fileURL example_env example_mirror ''repodata/filelists.xml.gz'' =
       ''https://m2.example/f/repodata/filelists.xml.gz''"
proof -
  note t = typed_files_come_from_pinned_mirror
  let ?w1 = "snd (resolveRepomd example_env example_direct
                [''https://m2.example/f/repodata/repomd.xml''] [] example_world)"
  have index: "resolveRepomd example_env example_direct
          [''https://m2.example/f/repodata/repomd.xml''] [] example_world =
     (Inr (example_repomd, example_mirror), ?w1)"
    by (simp add: fetch_defs path_defs example_defs)
  have reqs: "requests ?w1 = [''https://m2.example/f/repodata/repomd.xml'']"
    by (simp add: fetch_defs path_defs example_defs)
  from t [THEN conjunct1, rule_format, OF index]
  obtain earlier u later m where
    "[''https://m2.example/f/repodata/repomd.xml''] = earlier @ u # later"
    "requests ?w1 = requests example_world @ earlier @ [u]"
    "url_Parse example_env u = Inr m"
    "example_mirror = m\<lparr>url_Path := TrimSuffix (path_Dir (url_Path m)) ''repodata''\<rparr>"
    by blast
  have parse: "url_Parse example_env ''https://m2.example/f/repodata/repomd.xml'' =
       Inr (example_mirror\<lparr>url_Path := ''/f/repodata/repomd.xml''\<rparr>)"
    by (simp add: example_defs)
  have primary: "Repomd_File example_repomd ''primary'' =
       Some (mk_Data ''primary'' ''sha256'' ''h(PRIMARY)'' ''repodata/primary.xml.gz'')
     \<and> Data_Location_Href
         (mk_Data ''primary'' ''sha256'' ''h(PRIMARY)'' ''repodata/primary.xml.gz'') \<noteq> []"
    by (simp add: Repomd_File_def example_defs)
  from t [THEN conjunct2, THEN conjunct1, rule_format, OF primary,
          of example_env example_direct example_mirror ?w1]
  have a: "requests (snd (fetchFile example_env ''primary'' example_direct example_repomd
        example_mirror ?w1)) =
       [''https://m2.example/f/repodata/repomd.xml'',
        ''https://m2.example/f/repodata/primary.xml.gz'']"
    by (simp only: reqs) (simp add: path_defs example_defs)
  have plain: "list_all plain_elem [''f'']"
    "list_all plain_elem [''f''] \<and> list_all plain_elem [''repodata'', ''primary.xml.gz'']
     \<and> [''repodata'', ''primary.xml.gz''] \<noteq> []"
    by (simp_all add: plain_elem_def)
  from t [THEN conjunct2, THEN conjunct2, THEN conjunct2, THEN conjunct1, rule_format,
          OF plain(1)]
  have b: "TrimSuffix (path_Dir ''/f/repodata/repomd.xml'') ''repodata'' = ''/f/''"
    by (simp add: rooted_dir_def)
  from t [THEN conjunct2, THEN conjunct2, THEN conjunct2, THEN conjunct2, rule_format,
          OF plain(2)]
  have c: "\<not> path_IsAbs ''repodata/primary.xml.gz''
     \<and> path_Join ''/f/'' ''repodata/primary.xml.gz'' = ''/f/repodata/primary.xml.gz''"
    by (simp add: rooted_dir_def)
  have d: "requests (snd (fetch_repo example_env example_direct example_world)) =
       [''https://m2.example/f/repodata/repomd.xml'',
        ''https://m2.example/f/repodata/primary.xml.gz'',
        ''https://m2.example/f/repodata/filelists.xml.gz'']"
    by (simp add: fetch_defs path_defs example_defs)
  have stages: "repomd_candidates example_env example_direct example_world =
       (Inr ([''https://m2.example/f/repodata/repomd.xml''], []), example_world)
     \<and> resolveRepomd example_env example_direct
         [''https://m2.example/f/repodata/repomd.xml''] [] example_world =
       (Inr (example_repomd, example_mirror), ?w1)
     \<and> Repomd_File example_repomd PrimaryFileType =
       Some (mk_Data ''primary'' ''sha256'' ''h(PRIMARY)'' ''repodata/primary.xml.gz'')
     \<and> Data_Location_Href
         (mk_Data ''primary'' ''sha256'' ''h(PRIMARY)'' ''repodata/primary.xml.gz'') \<noteq> []
     \<and> Repomd_File example_repomd FilelistsFileType =
       Some (mk_Data ''filelists'' ''sha256'' ''h(FILELISTS)'' ''repodata/filelists.xml.gz'')
     \<and> Data_Location_Href
         (mk_Data ''filelists'' ''sha256'' ''h(FILELISTS)'' ''repodata/filelists.xml.gz'') \<noteq> []"
    using index
    by (simp add: repomd_candidates_def TrimSuffix_def Repomd_File_def PrimaryFileType_def
        FilelistsFileType_def example_repomd_def mk_Repomd_def mk_Data_def example_direct_def)
  have urls: "fileURL example_env example_mirror ''repodata/primary.xml.gz'' =
       ''https://m2.example/f/repodata/primary.xml.gz''
     \<and> fileURL example_env example_mirror ''repodata/filelists.xml.gz'' =
       ''https://m2.example/f/repodata/filelists.xml.gz''"
    by (simp add: fileURL_def path_defs example_defs)
  from t [THEN conjunct2, THEN conjunct2, THEN conjunct1, rule_format, OF stages]
  have "requests (snd (fetch_repo example_env example_direct example_world)) =
        [''https://m2.example/f/repodata/repomd.xml'',
         ''https://m2.example/f/repodata/primary.xml.gz'']
      \<or> requests (snd (fetch_repo example_env example_direct example_world)) =
        [''https://m2.example/f/repodata/repomd.xml'',
         ''https://m2.example/f/repodata/primary.xml.gz'',
         ''https://m2.example/f/repodata/filelists.xml.gz'']"
    by (simp only: reqs) (simp add: urls mk_Data_def)
  from index have "fst (resolveRepomd example_env example_direct
          [''https://m2.example/f/repodata/repomd.xml''] [] example_world) =
     Inr (example_repomd, example_mirror)"
    by (metis fst_conv)
  with parse a b c d urls show ?thesis by blast
qed


subsection \<open>C7: Fetch stops at the first repository that fails\<close>

lemma Fetch_fails_fast:
  "fetch_repo e repo w = (Some err, w') \<Longrightarrow> Fetch e (repo # repos) w = (Some err, w')"
  by simp

lemma Fetch_append:
  "Fetch e fetched w = (None, w1) \<Longrightarrow> Fetch e (fetched @ repos) w = Fetch e repos w1"
proof (induction fetched arbitrary: w)
  case Nil
  then show ?case by simp
next
  case (Cons r rs)
  then show ?case
    by (cases "fetch_repo e r w") (auto split: option.splits)
qed

lemma Fetch_stops_at_first_failure:
  assumes "Fetch e fetched w = (None, w1)" and "fetch_repo e repo w1 = (Some err, w')"
  shows "Fetch e (fetched @ repo # repos) w = (Some err, w')"
  using assms by (simp add: Fetch_append)

text \<open>
  Claim C7 at a repository whose metalink resolves to a secure mirror but states no
  SHA-256 digest for repomd.xml. \<open>Fetch\<close> stops at this repository and requests
  nothing for the next one, as the claim says. The error it returns (line 42) tells the
  stage but, unlike the errors of lines 38, 49, 53 and 57, not the repository: its text
  does not contain the name \<open>rawhide\<close>.
\<close>

theorem missing_digest_error_omits_repository:
  "Fetch example_env [example_nohash, example_direct] example_world =
     (Some (Sha256sumOfRepomdFailed (External ''no sha256 found'')),
      \<lparr>requests = [''https://mirrors.example/nohash''],
       cache = [(''rawhide'', ''metalink'') \<mapsto> ''NOHASH''],
       logs = []\<rparr>)
   \<and> message (Sha256sumOfRepomdFailed (External ''no sha256 found'')) =
       ''failed to get sha256sum of repomd file: no sha256 found''
   \<and> \<not> Contains (message (Sha256sumOfRepomdFailed (External ''no sha256 found'')))
         (Repository_Name example_nohash)"
  by (simp add: fetch_defs example_defs)


subsection \<open>C8: an entry with an unknown checksum algorithm\<close>

lemma fetchFile_unknown_algorithm_fails:
  "Repomd_File repomd fileType = Some file \<Longrightarrow> Data_Checksum_Type file \<noteq> ''sha256'' \<Longrightarrow>
   fst (fetchFile e fileType repo repomd mirror w) \<noteq> None"
  by (simp add: fetchFile_def Get_def WriteToRepoDir_def Data_SHA256_def Let_def
      split: sum.splits option.splits prod.splits)

lemma fetchFile_unknown_algorithm_error:
  assumes "Repomd_File repomd fileType = Some file"
    and "Data_Checksum_Type file \<noteq> ''sha256''"
    and "Data_Location_Href file \<noteq> []"
    and "Getter_Get e (requests w) (fileURL e mirror (Data_Location_Href file)) = Inr body"
    and "write_fault e (requests w @ [fileURL e mirror (Data_Location_Href file)])
           (Repository_Name repo) (filepath_Base (Data_Location_Href file)) body = None"
  shows "fst (fetchFile e fileType repo repomd mirror w) =
         Some (Sha256sumOfFileFailed (External ''no sha256 found''))"
  using assms
  by (simp add: fetchFile_def Get_def WriteToRepoDir_def Data_SHA256_def Let_def log_line_def)

lemma fetchFile_verified:
  assumes "fst (fetchFile e fileType repo repomd mirror w) = None"
  shows "\<exists>file body. Repomd_File repomd fileType = Some file
         \<and> Data_Checksum_Type file = ''sha256''
         \<and> Getter_Get e (requests w) (fileURL e mirror (Data_Location_Href file)) = Inr body
         \<and> Data_Checksum_Text file = sha256_hex e body"
  using assms
  by (auto simp: fetchFile_def Get_def WriteToRepoDir_def Data_SHA256_def Let_def log_line_def
      split: sum.splits option.splits if_splits)

text \<open>
  Claim C8, for the entries \<open>fetchFile\<close> verifies, with \<open>Data_SHA256\<close> as modelled
  from the spec. When the entry of the file type declares an algorithm other than sha256,
  \<open>fetchFile\<close> never succeeds; once the file is fetched and stored, the error is the
  error of \<open>Data_SHA256\<close>, whatever the checksum text of the entry is: no digest is
  compared. \<open>fetchFile\<close> succeeds only for an entry that declares sha256 and whose
  checksum text is the SHA-256 digest of the fetched file.
\<close>

theorem unknown_algorithm_is_hard_error:
  "(Repomd_File repomd fileType = Some file \<and> Data_Checksum_Type file \<noteq> ''sha256'' \<longrightarrow>
      fst (fetchFile e fileType repo repomd mirror w) \<noteq> None)
 \<and> (Repomd_File repomd fileType = Some file \<and> Data_Checksum_Type file \<noteq> ''sha256''
      \<and> Data_Location_Href file \<noteq> []
      \<and> Getter_Get e (requests w) (fileURL e mirror (Data_Location_Href file)) = Inr body
      \<and> write_fault e (requests w @ [fileURL e mirror (Data_Location_Href file)])
           (Repository_Name repo) (filepath_Base (Data_Location_Href file)) body = None \<longrightarrow>
      fst (fetchFile e fileType repo repomd mirror w) =
        Some (Sha256sumOfFileFailed (External ''no sha256 found'')))
 \<and> (fst (fetchFile e fileType repo repomd mirror w) = None \<longrightarrow>
      (\<exists>file body. Repomd_File repomd fileType = Some file
         \<and> Data_Checksum_Type file = ''sha256''
         \<and> Getter_Get e (requests w) (fileURL e mirror (Data_Location_Href file)) = Inr body
         \<and> Data_Checksum_Text file = sha256_hex e body))"
  using fetchFile_unknown_algorithm_fails [of repomd fileType "file" e repo mirror w]
    fetchFile_unknown_algorithm_error [of repomd fileType "file" e w mirror body repo]
    fetchFile_verified [of e fileType repo repomd mirror w]
  by blast

text \<open>
  An entry that declares md5; its checksum text happens to be the digest the verifier
  computes for the served file, and the file is refused all the same. An entry that
  declares sha256 with the digest of the served file is accepted.
\<close>

theorem unknown_algorithm_is_hard_error_witness:
  "Repomd_File example_tampered ''filelists'' =
     Some (mk_Data ''filelists'' ''md5'' ''h(FILELISTS)'' ''repodata/filelists.xml.gz'')
   \<and> Getter_Get example_env (requests example_world)
       ''https://m2.example/f/repodata/filelists.xml.gz'' = Inr ''FILELISTS''
   \<and> sha256_hex example_env ''FILELISTS'' = ''h(FILELISTS)''
   \<and> fst (fetchFile example_env ''filelists'' example_testing example_tampered example_mirror
        example_world) = Some (Sha256sumOfFileFailed (External ''no sha256 found''))
   \<and> fst (fetchFile example_env ''filelists'' example_testing example_tampered example_mirror
        example_world) \<noteq> None
   \<and> fst (fetchFile example_env ''primary'' example_direct example_repomd example_mirror
        example_world) = None
   \<and> (\<exists>file body. Repomd_File example_repomd ''primary'' = Some file
         \<and> Data_Checksum_Type file = ''sha256''
         \<and> Getter_Get example_env (requests example_world)
             (fileURL example_env example_mirror (Data_Location_Href file)) = Inr body
         \<and> Data_Checksum_Text file = sha256_hex example_env body)"
proof -
  have h: "Repomd_File example_tampered ''filelists'' =
       Some (mk_Data ''filelists'' ''md5'' ''h(FILELISTS)'' ''repodata/filelists.xml.gz'')
     \<and> Data_Checksum_Type
         (mk_Data ''filelists'' ''md5'' ''h(FILELISTS)'' ''repodata/filelists.xml.gz'') \<noteq> ''sha256''
     \<and> Data_Location_Href
         (mk_Data ''filelists'' ''md5'' ''h(FILELISTS)'' ''repodata/filelists.xml.gz'') \<noteq> []
     \<and> Getter_Get example_env (requests example_world)
         (fileURL example_env example_mirror
            (Data_Location_Href
               (mk_Data ''filelists'' ''md5'' ''h(FILELISTS)'' ''repodata/filelists.xml.gz''))) =
       Inr ''FILELISTS''
     \<and> write_fault example_env
         (requests example_world @
          [fileURL example_env example_mirror
             (Data_Location_Href
                (mk_Data ''filelists'' ''md5'' ''h(FILELISTS)'' ''repodata/filelists.xml.gz''))])
         (Repository_Name example_testing)
         (filepath_Base
            (Data_Location_Href
               (mk_Data ''filelists'' ''md5'' ''h(FILELISTS)'' ''repodata/filelists.xml.gz'')))
         ''FILELISTS'' = None"
    by (simp add: fetch_defs path_defs example_defs)
  have g: "Getter_Get example_env (requests example_world)
       ''https://m2.example/f/repodata/filelists.xml.gz'' = Inr ''FILELISTS''
     \<and> sha256_hex example_env ''FILELISTS'' = ''h(FILELISTS)''"
    by (simp add: example_defs)
  have good: "fst (fetchFile example_env ''primary'' example_direct example_repomd
        example_mirror example_world) = None"
    by (simp add: fetch_defs path_defs example_defs)
  note t = unknown_algorithm_is_hard_error
  from h have h': "Repomd_File example_tampered ''filelists'' =
       Some (mk_Data ''filelists'' ''md5'' ''h(FILELISTS)'' ''repodata/filelists.xml.gz'')
     \<and> Data_Checksum_Type
         (mk_Data ''filelists'' ''md5'' ''h(FILELISTS)'' ''repodata/filelists.xml.gz'') \<noteq> ''sha256''"
    by blast
  note a = t [THEN conjunct1, rule_format, OF h',
              of example_env example_testing example_mirror example_world]
  note b = t [THEN conjunct2, THEN conjunct1, rule_format, OF h]
  note c = t [THEN conjunct2, THEN conjunct2, rule_format, OF good]
  from a b c h g good show ?thesis by blast
qed


subsection \<open>C9: the metalink comes before the base URL\<close>

lemma WriteToRepoDir_Baseurl:
  "WriteToRepoDir e (repo\<lparr>Repository_Baseurl := b\<rparr>) = WriteToRepoDir e repo"
  by (intro ext) (simp add: WriteToRepoDir_def split: option.splits)

lemma LoadMetaLink_Baseurl:
  "LoadMetaLink e (repo\<lparr>Repository_Baseurl := b\<rparr>) = LoadMetaLink e repo"
  by (intro ext) (simp add: LoadMetaLink_def)

lemma UnmarshalFromRepoDir_Baseurl:
  "UnmarshalFromRepoDir e (repo\<lparr>Repository_Baseurl := b\<rparr>) = UnmarshalFromRepoDir e repo"
  by (intro ext) (simp add: UnmarshalFromRepoDir_def)

lemma resolveMetaLink_Baseurl:
  "resolveMetaLink e (repo\<lparr>Repository_Baseurl := b\<rparr>) w = resolveMetaLink e repo w"
  by (simp add: resolveMetaLink_def WriteToRepoDir_Baseurl LoadMetaLink_Baseurl
      cong: prod.case_cong sum.case_cong option.case_cong)

lemma try_mirror_Baseurl:
  "try_mirror e (repo\<lparr>Repository_Baseurl := b\<rparr>) s u w = try_mirror e repo s u w"
  by (simp add: try_mirror_def WriteToRepoDir_Baseurl UnmarshalFromRepoDir_Baseurl
      cong: prod.case_cong sum.case_cong option.case_cong if_cong)

lemma resolveRepomd_loop_Baseurl:
  "resolveRepomd_loop e (repo\<lparr>Repository_Baseurl := b\<rparr>) s urls w =
   resolveRepomd_loop e repo s urls w"
  by (induction urls arbitrary: w)
    (simp_all add: try_mirror_Baseurl split: prod.splits attempt.splits)

lemma resolveRepomd_Baseurl:
  "resolveRepomd e (repo\<lparr>Repository_Baseurl := b\<rparr>) urls s w = resolveRepomd e repo urls s w"
  by (simp add: resolveRepomd_def resolveRepomd_loop_Baseurl)

lemma fetchFile_Baseurl:
  "fetchFile e fileType (repo\<lparr>Repository_Baseurl := b\<rparr>) repomd mirror w =
   fetchFile e fileType repo repomd mirror w"
  by (simp add: fetchFile_def WriteToRepoDir_Baseurl
      cong: prod.case_cong sum.case_cong option.case_cong if_cong)

lemma repomd_candidates_Baseurl:
  "Repository_Metalink repo \<noteq> [] \<Longrightarrow>
   repomd_candidates e (repo\<lparr>Repository_Baseurl := b\<rparr>) w = repomd_candidates e repo w"
  by (simp add: repomd_candidates_def resolveMetaLink_Baseurl
      cong: prod.case_cong sum.case_cong option.case_cong)

lemma fetch_repo_Baseurl:
  "Repository_Metalink repo \<noteq> [] \<Longrightarrow>
   fetch_repo e (repo\<lparr>Repository_Baseurl := b\<rparr>) w = fetch_repo e repo w"
  by (simp add: fetch_repo_def repomd_candidates_Baseurl resolveRepomd_Baseurl fetchFile_Baseurl
      cong: prod.case_cong sum.case_cong option.case_cong error.case_cong)

lemma repomd_candidates_metalink:
  assumes "Repository_Metalink repo \<noteq> []"
    and "repomd_candidates e repo w = (Inr (candidates, s), w1)"
  shows "\<exists>metalink. resolveMetaLink e repo w = (Inr (metalink, candidates), w1)"
  using assms
  by (auto simp: repomd_candidates_def split: sum.splits option.splits prod.splits)

lemma TrimSuffix_slash:
  "TrimSuffix (b @ ''/'') ''/'' = b"
  "b = [] \<or> last b \<noteq> CHR ''/'' \<Longrightarrow> TrimSuffix b ''/'' = b"
proof -
  show "TrimSuffix (b @ ''/'') ''/'' = b" by (simp add: TrimSuffix_def)
next
  assume a: "b = [] \<or> last b \<noteq> CHR ''/''"
  show "TrimSuffix b ''/'' = b"
  proof (cases b rule: rev_cases)
    case Nil
    then show ?thesis by (simp add: TrimSuffix_def)
  next
    case (snoc ys y)
    with a show ?thesis by (simp add: TrimSuffix_def)
  qed
qed

text \<open>
  Claim C9, as amended. For a repository with a metalink, the base URL has no part in what
  \<open>Fetch\<close> does with the repository: the candidate URLs of the index are the mirrors
  that \<open>resolveMetaLink\<close> returns, whatever the base URL is. When the metalink field is
  empty and the base URL is not, there is one candidate: the base URL without one trailing
  slash, followed by \<^verbatim>\<open>/repodata/repomd.xml\<close>; that is the base URL followed by
  \<^verbatim>\<open>/repodata/repomd.xml\<close> only for a base URL that does not end in a slash.
\<close>

theorem metalink_before_baseurl:
  "(Repository_Metalink repo \<noteq> [] \<longrightarrow>
      repomd_candidates e (repo\<lparr>Repository_Baseurl := b\<rparr>) w = repomd_candidates e repo w
      \<and> fetch_repo e (repo\<lparr>Repository_Baseurl := b\<rparr>) w = fetch_repo e repo w)
 \<and> (Repository_Metalink repo \<noteq> []
      \<and> repomd_candidates e repo w = (Inr (candidates, s), w1) \<longrightarrow>
      (\<exists>metalink. resolveMetaLink e repo w = (Inr (metalink, candidates), w1)))
 \<and> (Repository_Metalink repo = [] \<and> Repository_Baseurl repo \<noteq> [] \<longrightarrow>
      repomd_candidates e repo w =
        (Inr ([TrimSuffix (Repository_Baseurl repo) ''/'' @ ''/repodata/repomd.xml''], []), w))
 \<and> (Repository_Metalink repo = [] \<and> Repository_Baseurl repo \<noteq> []
      \<and> last (Repository_Baseurl repo) \<noteq> CHR ''/'' \<longrightarrow>
      repomd_candidates e repo w =
        (Inr ([Repository_Baseurl repo @ ''/repodata/repomd.xml''], []), w))
 \<and> (Repository_Metalink repo = [] \<and> Repository_Baseurl repo = base @ ''/'' \<longrightarrow>
      repomd_candidates e repo w = (Inr ([base @ ''/repodata/repomd.xml''], []), w))"
proof (intro conjI impI)
  assume "Repository_Metalink repo \<noteq> []"
  then show "repomd_candidates e (repo\<lparr>Repository_Baseurl := b\<rparr>) w = repomd_candidates e repo w"
    and "fetch_repo e (repo\<lparr>Repository_Baseurl := b\<rparr>) w = fetch_repo e repo w"
    by (simp_all add: repomd_candidates_Baseurl fetch_repo_Baseurl)
next
  assume "Repository_Metalink repo \<noteq> []
      \<and> repomd_candidates e repo w = (Inr (candidates, s), w1)"
  then show "\<exists>metalink. resolveMetaLink e repo w = (Inr (metalink, candidates), w1)"
    by (elim conjE) (rule repomd_candidates_metalink)
next
  assume "Repository_Metalink repo = [] \<and> Repository_Baseurl repo \<noteq> []"
  then show "repomd_candidates e repo w =
        (Inr ([TrimSuffix (Repository_Baseurl repo) ''/'' @ ''/repodata/repomd.xml''], []), w)"
    by (simp add: repomd_candidates_def)
next
  assume "Repository_Metalink repo = [] \<and> Repository_Baseurl repo \<noteq> []
      \<and> last (Repository_Baseurl repo) \<noteq> CHR ''/''"
  then show "repomd_candidates e repo w =
        (Inr ([Repository_Baseurl repo @ ''/repodata/repomd.xml''], []), w)"
    by (simp add: repomd_candidates_def TrimSuffix_slash(2))
next
  assume "Repository_Metalink repo = [] \<and> Repository_Baseurl repo = base @ ''/''"
  then show "repomd_candidates e repo w = (Inr ([base @ ''/repodata/repomd.xml''], []), w)"
    by (simp add: repomd_candidates_def TrimSuffix_slash(1))
qed

text \<open>
  A repository with a metalink and a base URL, and repositories with a base URL only, one
  ending in a slash and one not.
\<close>

theorem metalink_before_baseurl_witness:
  "Repository_Metalink example_repo \<noteq> [] \<and> Repository_Baseurl example_repo \<noteq> []
   \<and> repomd_candidates example_env example_repo example_world =
       (Inr ([''https://m1.example/f/repodata/repomd.xml'',
              ''https://m2.example/f/repodata/repomd.xml''], ''h(INDEX)''), example_resolved)
   \<and> (\<exists>metalink. resolveMetaLink example_env example_repo example_world =
         (Inr (metalink,
               [''https://m1.example/f/repodata/repomd.xml'',
                ''https://m2.example/f/repodata/repomd.xml'']), example_resolved))
   \<and> fetch_repo example_env (example_repo\<lparr>Repository_Baseurl := ''https://down.example''\<rparr>)
        example_world = fetch_repo example_env example_repo example_world
   \<and> repomd_candidates example_env example_direct example_world =
       (Inr ([''https://m2.example/f/repodata/repomd.xml''], []), example_world)
   \<and> repomd_candidates example_env example_testing example_world =
       (Inr ([''https://m3.example/f/repodata/repomd.xml''], []), example_world)"
proof -
  note t = metalink_before_baseurl [where e = example_env and w = example_world]
  have both: "Repository_Metalink example_repo \<noteq> []" "Repository_Baseurl example_repo \<noteq> []"
    by (simp_all add: example_defs)
  have candidates: "repomd_candidates example_env example_repo example_world =
       (Inr ([''https://m1.example/f/repodata/repomd.xml'',
              ''https://m2.example/f/repodata/repomd.xml''], ''h(INDEX)''), example_resolved)"
    by (simp add: fetch_defs example_defs)
  from t [THEN conjunct1, rule_format, OF both(1), of "''https://down.example''"]
  have a: "fetch_repo example_env (example_repo\<lparr>Repository_Baseurl := ''https://down.example''\<rparr>)
        example_world = fetch_repo example_env example_repo example_world"
    by (rule conjunct2)
  from t [THEN conjunct2, THEN conjunct1, rule_format, OF conjI [OF both(1) candidates]]
  have b: "\<exists>metalink. resolveMetaLink example_env example_repo example_world =
         (Inr (metalink,
               [''https://m1.example/f/repodata/repomd.xml'',
                ''https://m2.example/f/repodata/repomd.xml'']), example_resolved)" .
  have direct: "Repository_Metalink example_direct = []
      \<and> Repository_Baseurl example_direct = ''https://m2.example/f'' @ ''/''"
    by (simp add: example_defs)
  from t [THEN conjunct2, THEN conjunct2, THEN conjunct2, THEN conjunct2, rule_format, OF direct]
  have c: "repomd_candidates example_env example_direct example_world =
       (Inr ([''https://m2.example/f/repodata/repomd.xml''], []), example_world)"
    by simp
  have testing: "Repository_Metalink example_testing = []
      \<and> Repository_Baseurl example_testing \<noteq> []
      \<and> last (Repository_Baseurl example_testing) \<noteq> CHR ''/''"
    by (simp add: example_defs)
  from t [THEN conjunct2, THEN conjunct2, THEN conjunct2, THEN conjunct1, rule_format,
          OF testing]
  have d: "repomd_candidates example_env example_testing example_world =
       (Inr ([''https://m3.example/f/repodata/repomd.xml''], []), example_world)"
    by (simp add: example_defs)
  have direct': "Repository_Metalink example_direct = []
      \<and> Repository_Baseurl example_direct \<noteq> []"
    by (simp add: example_defs)
  from t [THEN conjunct2, THEN conjunct2, THEN conjunct1, rule_format, OF direct']
  have "repomd_candidates example_env example_direct example_world =
       (Inr ([TrimSuffix (Repository_Baseurl example_direct) ''/'' @ ''/repodata/repomd.xml''],
             []), example_world)" .
  from both candidates a b c d show ?thesis by blast
qed

text \<open>
  Against C9 as it is stated (the single URL is the base URL followed by
  \<^verbatim>\<open>/repodata/repomd.xml\<close>): for a base URL that ends in a slash the candidate is
  another URL.
\<close>

theorem baseurl_trailing_slash_is_trimmed:
  "Repository_Metalink example_direct = []
   \<and> Repository_Baseurl example_direct = ''https://m2.example/f/''
   \<and> fst (repomd_candidates example_env example_direct example_world) =
       Inr ([''https://m2.example/f/repodata/repomd.xml''], [])
   \<and> fst (repomd_candidates example_env example_direct example_world) \<noteq>
       Inr ([Repository_Baseurl example_direct @ ''/repodata/repomd.xml''], [])"
  by (simp add: repomd_candidates_def TrimSuffix_def example_defs)


subsection \<open>C10: a typed file that fails verification stays in the cache\<close>

text \<open>
  Claim C10. When \<open>fetchFile\<close> returns a checksum mismatch, the file has been fetched
  and the cache directory of the repository holds all of its bytes under the base name of
  the href; the actual digest of the error is the digest of these bytes. Nothing else in
  the cache has changed, and nothing has been removed.
\<close>

theorem mismatched_file_stays_in_cache:
  assumes "fetchFile e fileType repo repomd mirror w = (Some (ChecksumMismatch expected actual), w')"
  shows "\<exists>file body.
           Repomd_File repomd fileType = Some file
         \<and> Getter_Get e (requests w) (fileURL e mirror (Data_Location_Href file)) = Inr body
         \<and> Data_SHA256 file = Inr expected
         \<and> actual = sha256_hex e body
         \<and> cache w' =
             (cache w)((Repository_Name repo, filepath_Base (Data_Location_Href file)) \<mapsto> body)"
  using assms
  by (auto simp: fetchFile_def Get_def WriteToRepoDir_def log_line_def Let_def
      split: sum.splits option.splits if_splits)

text \<open>The served primary file does not have the checksum of the index; it is stored.\<close>

theorem mismatched_file_stays_in_cache_witness:
  "fst (fetchFile example_env ''primary'' example_testing example_tampered example_mirror
          example_world) = Some (ChecksumMismatch ''h(OTHER)'' ''h(PRIMARY)'')
   \<and> (\<exists>file body.
         Repomd_File example_tampered ''primary'' = Some file
       \<and> Getter_Get example_env (requests example_world)
           (fileURL example_env example_mirror (Data_Location_Href file)) = Inr body
       \<and> Data_SHA256 file = Inr ''h(OTHER)''
       \<and> ''h(PRIMARY)'' = sha256_hex example_env body
       \<and> cache (snd (fetchFile example_env ''primary'' example_testing example_tampered
                       example_mirror example_world)) =
           (cache example_world)
             ((Repository_Name example_testing, filepath_Base (Data_Location_Href file))
              \<mapsto> body))
   \<and> cache (snd (fetchFile example_env ''primary'' example_testing example_tampered
                   example_mirror example_world)) (''testing'', ''primary.xml.gz'') =
       Some ''PRIMARY''"
proof -
  have run: "fetchFile example_env ''primary'' example_testing example_tampered example_mirror
     example_world =
     (Some (ChecksumMismatch ''h(OTHER)'' ''h(PRIMARY)''),
      snd (fetchFile example_env ''primary'' example_testing example_tampered example_mirror
             example_world))"
    by (simp add: fetch_defs path_defs example_defs)
  have stored: "cache (snd (fetchFile example_env ''primary'' example_testing example_tampered
                   example_mirror example_world)) (''testing'', ''primary.xml.gz'') =
       Some ''PRIMARY''"
    by (simp add: fetch_defs path_defs example_defs)
  from run have "fst (fetchFile example_env ''primary'' example_testing example_tampered
      example_mirror example_world) = Some (ChecksumMismatch ''h(OTHER)'' ''h(PRIMARY)'')"
    by (metis fst_conv)
  with mismatched_file_stays_in_cache [OF run] stored show ?thesis by blast
qed


end
